theory Spec2Isabelle
  imports Main
begin

section \<open>Python values used by the appointment system\<close>

text \<open>
  Exceptions are values.  A computation that can raise returns \<open>py_error + 'a\<close>
  (\<open>Inl\<close> the exception); a computation that contains the one loop of the program
  that may run forever returns an \<open>option\<close> around that, \<open>None\<close> meaning that the
  call does not return.
\<close>

datatype py_error = ValueError | TypeError | KeyError | AttributeError | OverflowError

subsection \<open>datetime, time, timedelta\<close>

text \<open>
  A naive \<open>datetime\<close> is represented by the number of microseconds (Python's
  resolution) on a linear axis: \<open>ordinal * 86400000000 + microseconds since midnight\<close>,
  where \<open>ordinal\<close> is the proleptic Gregorian ordinal of the date
  (\<open>date.toordinal()\<close>, 0001-01-01 is day 1).  Python compares naive datetimes
  lexicographically by (year, month, day, hour, minute, second, microsecond), which is
  the order of these numbers.  A \<open>time\<close> is the number of microseconds since
  midnight, a \<open>date\<close> its ordinal, a \<open>timedelta\<close> a number of microseconds.
  Python's datetimes lie between \<open>datetime.min\<close> (0001-01-01T00:00:00) and
  \<open>datetime.max\<close> (9999-12-31T23:59:59.999999), and adding a \<open>timedelta\<close>
  raises \<open>OverflowError\<close> when the sum leaves this range: \<open>add_timedelta\<close>.
  It is used where the slot engine adds days to a datetime it was given: the loop over
  a range of days and the horizon of 30 days.  Where the slot engine and the booking
  add minutes, the datetime is a time within the working hours of its date and the
  minutes are at most an hour, so the sum stays on that date and is written as a plain
  sum; so is the default end of \<open>get_existing_appointments\<close>, which the slot
  engine never asks for.  Renderings that lose nothing (\<open>isoformat()\<close>, \<open>strftime('%Y-%m-%d')\<close>) are
  represented by the value they render; \<open>strftime('%H:%M')\<close> and \<open>strftime('%A')\<close>,
  which the program compares or looks up as strings, produce strings.
\<close>

type_synonym datetime = int
type_synonym date = int
type_synonym time = int
type_synonym timedelta = int

definition timedelta_minutes :: "int \<Rightarrow> timedelta" where
  "timedelta_minutes n = n * 60000000"

definition timedelta_days :: "int \<Rightarrow> timedelta" where
  "timedelta_days n = n * 86400000000"

definition dt_date :: "datetime \<Rightarrow> date" where
  "dt_date dt = dt div 86400000000"

definition dt_time :: "datetime \<Rightarrow> time" where
  "dt_time dt = dt mod 86400000000"

definition combine :: "date \<Rightarrow> time \<Rightarrow> datetime" where
  "combine d t = d * 86400000000 + t"

definition mk_time :: "int \<Rightarrow> int \<Rightarrow> int \<Rightarrow> int \<Rightarrow> time" where
  "mk_time h m s us = ((h * 60 + m) * 60 + s) * 1000000 + us"

definition datetime_min :: datetime where
  "datetime_min = combine 1 0"

definition datetime_max :: datetime where
  "datetime_max = combine 3652059 (mk_time 23 59 59 999999)"

text \<open>\<open>dt + td\<close>\<close>

definition add_timedelta :: "datetime \<Rightarrow> timedelta \<Rightarrow> py_error + datetime" where
  "add_timedelta dt td =
     (if dt + td < datetime_min \<or> datetime_max < dt + td then Inl OverflowError
      else Inr (dt + td))"

text \<open>\<open>dt.replace(hour=h, minute=m, second=s, microsecond=us)\<close>\<close>

definition replace_time :: "datetime \<Rightarrow> int \<Rightarrow> int \<Rightarrow> int \<Rightarrow> int \<Rightarrow> datetime" where
  "replace_time dt h m s us = combine (dt_date dt) (mk_time h m s us)"

text \<open>\<open>date.weekday()\<close>: Monday is 0; ordinal 1 is a Monday.\<close>

definition weekday :: "date \<Rightarrow> nat" where
  "weekday d = nat ((d + 6) mod 7)"

definition day_names :: "string list" where
  "day_names = [''Monday'', ''Tuesday'', ''Wednesday'', ''Thursday'', ''Friday'',
                ''Saturday'', ''Sunday'']"

text \<open>\<open>dt.strftime('%A')\<close> in the C locale.\<close>

definition strftime_A :: "datetime \<Rightarrow> string" where
  "strftime_A dt = day_names ! weekday (dt_date dt)"

text \<open>\<open>str.lower()\<close> on ASCII strings.\<close>

definition lower_char :: "char \<Rightarrow> char" where
  "lower_char c =
     (case map_of (zip ''ABCDEFGHIJKLMNOPQRSTUVWXYZ'' ''abcdefghijklmnopqrstuvwxyz'') c of
        None \<Rightarrow> c
      | Some l \<Rightarrow> l)"

definition lower :: "string \<Rightarrow> string" where
  "lower s = map lower_char s"

definition two_digits :: "nat \<Rightarrow> string" where
  "two_digits n = [''0123456789'' ! ((n div 10) mod 10), ''0123456789'' ! (n mod 10)]"

text \<open>\<open>dt.strftime('%H:%M')\<close>\<close>

definition strftime_HM :: "datetime \<Rightarrow> string" where
  "strftime_HM dt =
     two_digits (nat (dt_time dt div 3600000000)) @ '':'' @
     two_digits (nat ((dt_time dt div 60000000) mod 60))"

subsection \<open>The calendar (\<open>datetime.date(y, m, d).toordinal()\<close>)\<close>

definition is_leap :: "int \<Rightarrow> bool" where
  "is_leap y = (y mod 4 = 0 \<and> (y mod 100 \<noteq> 0 \<or> y mod 400 = 0))"

definition days_in_month :: "int \<Rightarrow> nat \<Rightarrow> int" where
  "days_in_month y m =
     (if m = 2 \<and> is_leap y then 29
      else [31, 28, 31, 30, 31, 30, 31, 31, 30, 31, 30, 31] ! (m - 1))"

definition days_before_year :: "int \<Rightarrow> int" where
  "days_before_year y =
     (y - 1) * 365 + (y - 1) div 4 - (y - 1) div 100 + (y - 1) div 400"

definition days_before_month :: "int \<Rightarrow> nat \<Rightarrow> int" where
  "days_before_month y m = sum_list (map (days_in_month y) [1..<m])"

definition ymd2ord :: "int \<Rightarrow> nat \<Rightarrow> int \<Rightarrow> date" where
  "ymd2ord y m d = days_before_year y + days_before_month y m + d"

subsection \<open>\<open>datetime.strptime\<close> for the two formats the program uses\<close>

text \<open>
  \<open>strptime\<close> compiles the format into a regular expression, matches it at the start
  of the string (first match in backtracking order), raises \<open>ValueError\<close> when there
  is no match or when the match does not reach the end of the string, converts the
  groups with \<open>int\<close>, and raises \<open>ValueError\<close> when the fields are not a date.
  Strings are ASCII.  A group is a list of alternatives, tried in order; an
  alternative is a sequence of character classes.  The groups are
  \<open>%H = 2[0-3]|[0-1]\d|\d\<close>, \<open>%M = [0-5]\d|\d\<close>, \<open>%Y = \d\d\d\d\<close>,
  \<open>%m = 1[0-2]|0[1-9]|[1-9]\<close> and \<open>%d = 3[0-1]|[1-2]\d|0[1-9]|[1-9]| [1-9]\<close>.
\<close>

type_synonym char_class = string
type_synonym alternative = "char_class list"

fun match_seq :: "alternative \<Rightarrow> string \<Rightarrow> (string \<times> string) option" where
  "match_seq [] s = Some ([], s)"
| "match_seq (cls # rest) [] = None"
| "match_seq (cls # rest) (c # s) =
     (if c \<in> set cls
      then (case match_seq rest s of
              None \<Rightarrow> None
            | Some (m, s') \<Rightarrow> Some (c # m, s'))
      else None)"

text \<open>
  \<open>match_group alts s k\<close>: the first alternative that matches a prefix of \<open>s\<close> and
  whose continuation \<open>k\<close> (the rest of the regular expression) succeeds.
\<close>

fun match_group ::
  "alternative list \<Rightarrow> string \<Rightarrow> (string \<Rightarrow> string \<Rightarrow> 'a option) \<Rightarrow> 'a option" where
  "match_group [] s k = None"
| "match_group (a # alts) s k =
     (case match_seq a s of
        None \<Rightarrow> match_group alts s k
      | Some (m, s') \<Rightarrow>
          (case k m s' of
             None \<Rightarrow> match_group alts s k
           | Some r \<Rightarrow> Some r))"

definition match_literal :: "char \<Rightarrow> string \<Rightarrow> (string \<Rightarrow> 'a option) \<Rightarrow> 'a option" where
  "match_literal c s k = (case s of [] \<Rightarrow> None | x # s' \<Rightarrow> if x = c then k s' else None)"

definition digits :: char_class where
  "digits = ''0123456789''"

definition nonzero :: char_class where
  "nonzero = ''123456789''"

definition re_H :: "alternative list" where
  "re_H = [[''2'', ''0123''], [''01'', digits], [digits]]"

definition re_M :: "alternative list" where
  "re_M = [[''012345'', digits], [digits]]"

definition re_Y :: "alternative list" where
  "re_Y = [[digits, digits, digits, digits]]"

definition re_m :: "alternative list" where
  "re_m = [[''1'', ''012''], [''0'', nonzero], [nonzero]]"

definition re_d :: "alternative list" where
  "re_d = [[''3'', ''01''], [''12'', digits], [''0'', nonzero], [nonzero], ['' '', nonzero]]"

text \<open>\<open>int(s)\<close> on a matched group: decimal digits, surrounding blanks ignored.\<close>

definition digit_val :: "char \<Rightarrow> nat" where
  "digit_val c = of_char c - 48"

definition py_int :: "string \<Rightarrow> nat" where
  "py_int s = foldl (\<lambda>a c. 10 * a + digit_val c) 0 (filter (\<lambda>c. c \<noteq> CHR '' '') s)"

text \<open>\<open>datetime.strptime(s, '%H:%M').time()\<close>\<close>

definition strptime_HM :: "string \<Rightarrow> py_error + time" where
  "strptime_HM s =
     (case match_group re_H s (\<lambda>h s1.
             match_literal CHR '':'' s1 (\<lambda>s2.
             match_group re_M s2 (\<lambda>m s3. Some (h, m, s3)))) of
        None \<Rightarrow> Inl ValueError
      | Some (h, m, rest) \<Rightarrow>
          if rest \<noteq> [] then Inl ValueError
          else Inr (mk_time (int (py_int h)) (int (py_int m)) 0 0))"

text \<open>\<open>datetime.strptime(s, '%Y-%m-%d')\<close>, a datetime at midnight.\<close>

definition strptime_Ymd :: "string \<Rightarrow> py_error + datetime" where
  "strptime_Ymd s =
     (case match_group re_Y s (\<lambda>y s1.
             match_literal CHR ''-'' s1 (\<lambda>s2.
             match_group re_m s2 (\<lambda>m s3.
             match_literal CHR ''-'' s3 (\<lambda>s4.
             match_group re_d s4 (\<lambda>d s5. Some (y, m, d, s5)))))) of
        None \<Rightarrow> Inl ValueError
      | Some (y, m, d, rest) \<Rightarrow>
          if rest \<noteq> [] then Inl ValueError
          else if py_int y < 1 \<or> int (py_int d) > days_in_month (int (py_int y)) (py_int m)
          then Inl ValueError
          else Inr (combine (ymd2ord (int (py_int y)) (py_int m) (int (py_int d))) 0))"

section \<open>Type catalog (\<open>config/appointment_types.py\<close>)\<close>

record appointment_type =
  at_name :: string
  at_duration :: int
  at_description :: string

definition APPOINTMENT_TYPES :: "string \<rightharpoonup> appointment_type" where
  "APPOINTMENT_TYPES = map_of
     [(''general_consultation'',
         \<lparr>at_name = ''General Consultation'', at_duration = 30,
          at_description = ''Standard medical consultation''\<rparr>),
      (''follow_up'',
         \<lparr>at_name = ''Follow-up'', at_duration = 15,
          at_description = ''Follow-up appointment for previous consultation''\<rparr>),
      (''physical_exam'',
         \<lparr>at_name = ''Physical Exam'', at_duration = 45,
          at_description = ''Comprehensive physical examination''\<rparr>),
      (''specialist_consultation'',
         \<lparr>at_name = ''Specialist Consultation'', at_duration = 60,
          at_description = ''Detailed consultation with specialist''\<rparr>)]"

definition get_appointment_duration :: "string \<Rightarrow> int option" where
  "get_appointment_duration appointment_type =
     (case APPOINTMENT_TYPES appointment_type of
        Some info \<Rightarrow> Some (at_duration info)
      | None \<Rightarrow> None)"

definition get_appointment_info :: "string \<Rightarrow> appointment_type option" where
  "get_appointment_info appointment_type = APPOINTMENT_TYPES appointment_type"

section \<open>Doctor schedule (\<open>src/doctor_schedule.py\<close>)\<close>

subsection \<open>The external calendar\<close>

text \<open>
  A timestamp of an event as it arrives from the calendar, classified by what
  \<open>datetime.fromisoformat(x.replace('Z', '+00:00'))\<close> does with it: \<open>NotAString\<close>
  (absent or null: \<open>replace\<close> raises \<open>AttributeError\<close>), \<open>NotISO\<close> (a string
  that \<open>fromisoformat\<close> rejects with \<open>ValueError\<close>) or \<open>ISO dt off\<close>, a string
  that parses to the wall-clock fields \<open>dt\<close> and, when the string carries one, the
  UTC offset \<open>off\<close> in minutes.
\<close>

datatype wire_time = NotAString | NotISO | ISO datetime "int option"

text \<open>A parsed datetime: its wall-clock value and its \<open>tzinfo\<close>.\<close>

record py_datetime =
  naive :: datetime
  tzinfo :: "int option"

fun fromisoformat :: "wire_time \<Rightarrow> py_error + py_datetime" where
  "fromisoformat NotAString = Inl AttributeError"
| "fromisoformat NotISO = Inl ValueError"
| "fromisoformat (ISO dt off) = Inr \<lparr>naive = dt, tzinfo = off\<rparr>"

text \<open>\<open>dt.replace(tzinfo=None)\<close> keeps the wall-clock fields.\<close>

definition replace_tzinfo_None :: "py_datetime \<Rightarrow> py_datetime" where
  "replace_tzinfo_None dt = dt\<lparr>tzinfo := None\<rparr>"

datatype json = JNull | JStr string | JInt int | JDict "(string \<times> json) list"

record event =
  ev_uri :: "string option"
  ev_name :: "string option"
  ev_start_time :: wire_time
  ev_end_time :: wire_time
  ev_status :: "string option"
  ev_location :: "json option"
  ev_invitees_counter :: "json option"

text \<open>
  The answer of \<open>CalendlyAPI.get_scheduled_events\<close>: a dictionary with the key
  \<open>'error'\<close> (and its \<open>'message'\<close>; this is what \<open>_make_request\<close> returns
  on a failed request), a dictionary with a \<open>'collection'\<close> of events, or a
  dictionary with neither key.
\<close>

datatype response = ErrorResponse string | Collection "event list" | NoCollection

text \<open>
  The world outside the program at the time of a call: the calendar, asked with the
  bounds of the query (the values whose \<open>isoformat() + 'Z'\<close> the program sends),
  and the clocks \<open>datetime.utcnow()\<close> and \<open>datetime.now()\<close>.
\<close>

record world =
  scheduled_events :: "datetime \<Rightarrow> datetime \<Rightarrow> response"
  utcnow :: datetime
  now :: datetime

subsection \<open>DoctorSchedule\<close>

record working_hours =
  wh_start :: "string option"
  wh_end :: "string option"
  wh_available :: bool

definition get_working_hours :: "string \<rightharpoonup> working_hours" where
  "get_working_hours = map_of
     [(''monday'', \<lparr>wh_start = Some ''09:00'', wh_end = Some ''17:00'', wh_available = True\<rparr>),
      (''tuesday'', \<lparr>wh_start = Some ''09:00'', wh_end = Some ''17:00'', wh_available = True\<rparr>),
      (''wednesday'', \<lparr>wh_start = Some ''09:00'', wh_end = Some ''17:00'', wh_available = True\<rparr>),
      (''thursday'', \<lparr>wh_start = Some ''09:00'', wh_end = Some ''17:00'', wh_available = True\<rparr>),
      (''friday'', \<lparr>wh_start = Some ''09:00'', wh_end = Some ''17:00'', wh_available = True\<rparr>),
      (''saturday'', \<lparr>wh_start = Some ''10:00'', wh_end = Some ''14:00'', wh_available = True\<rparr>),
      (''sunday'', \<lparr>wh_start = None, wh_end = None, wh_available = False\<rparr>)]"

record appointment =
  apt_id :: string
  apt_name :: "string option"
  apt_start_time :: wire_time
  apt_end_time :: wire_time
  apt_status :: "string option"
  apt_location :: "json option"
  apt_invitees_counter :: json

text \<open>\<open>s.split(sep)\<close>, never empty.\<close>

fun split :: "char \<Rightarrow> string \<Rightarrow> string list" where
  "split sep [] = [[]]"
| "split sep (c # s) =
     (if c = sep then [] # split sep s
      else (case split sep s of
              [] \<Rightarrow> [[c]]
            | x # xs \<Rightarrow> (c # x) # xs))"

definition to_appointment :: "event \<Rightarrow> appointment" where
  "to_appointment event =
     \<lparr>apt_id = last (split CHR ''/'' (case ev_uri event of None \<Rightarrow> [] | Some u \<Rightarrow> u)),
      apt_name = ev_name event,
      apt_start_time = ev_start_time event,
      apt_end_time = ev_end_time event,
      apt_status = ev_status event,
      apt_location = ev_location event,
      apt_invitees_counter =
        (case ev_invitees_counter event of None \<Rightarrow> JDict [] | Some c \<Rightarrow> c)\<rparr>"

text \<open>
  \<open>get_existing_appointments\<close> returns the lines it prints together with its value.
\<close>

definition get_existing_appointments ::
  "world \<Rightarrow> datetime option \<Rightarrow> datetime option \<Rightarrow> string list \<times> appointment list" where
  "get_existing_appointments w start_date end_date =
     (let start_date = (case start_date of None \<Rightarrow> utcnow w | Some d \<Rightarrow> d);
          end_date = (case end_date of None \<Rightarrow> start_date + timedelta_days 30 | Some d \<Rightarrow> d)
      in case scheduled_events w start_date end_date of
           ErrorResponse message \<Rightarrow> ([''Error fetching appointments: '' @ message], [])
         | Collection events \<Rightarrow> ([], map to_appointment events)
         | NoCollection \<Rightarrow> ([], []))"

definition is_working_day :: "datetime \<Rightarrow> bool" where
  "is_working_day date =
     (case get_working_hours (lower (strftime_A date)) of
        None \<Rightarrow> False
      | Some hours \<Rightarrow> wh_available hours)"

record busy =
  busy_start :: wire_time
  busy_end :: wire_time

definition get_busy_time_slots :: "world \<Rightarrow> datetime \<Rightarrow> string list \<times> busy list" where
  "get_busy_time_slots w date =
     (let start_of_day = replace_time date 0 0 0 0;
          end_of_day = replace_time date 23 59 59 999999;
          (printed, appointments) =
             get_existing_appointments w (Some start_of_day) (Some end_of_day)
      in (printed,
          map (\<lambda>a. \<lparr>busy_start = apt_start_time a, busy_end = apt_end_time a\<rparr>)
              (filter (\<lambda>a. apt_status a = Some ''active'') appointments)))"

section \<open>Slot engine (\<open>src/available_slots.py\<close>)\<close>

definition slot_interval :: int where
  "slot_interval = 15"

definition parse_time_string :: "string option \<Rightarrow> py_error + time" where
  "parse_time_string time_str =
     (case time_str of None \<Rightarrow> Inl TypeError | Some s \<Rightarrow> strptime_HM s)"

text \<open>
  The \<open>while\<close> loop of \<open>generate_time_slots\<close>.  It does not end when the
  interval is not positive and the start is before the end, so it is a partial
  function: \<open>None\<close> is a call that does not return.
\<close>

partial_function (option) generate_loop ::
  "datetime \<Rightarrow> datetime \<Rightarrow> int \<Rightarrow> datetime list \<Rightarrow> datetime list option" where
  "generate_loop current_datetime end_datetime interval slots =
     (if current_datetime < end_datetime
      then generate_loop (current_datetime + timedelta_minutes interval) end_datetime interval
             (slots @ [current_datetime])
      else Some slots)"

declare generate_loop.simps [code]

definition generate_time_slots ::
  "time \<Rightarrow> time \<Rightarrow> datetime \<Rightarrow> int \<Rightarrow> datetime list option" where
  "generate_time_slots start_time end_time date interval =
     generate_loop (combine (dt_date date) start_time) (combine (dt_date date) end_time)
       interval []"

fun is_slot_available :: "datetime \<Rightarrow> int \<Rightarrow> busy list \<Rightarrow> py_error + bool" where
  "is_slot_available slot_start duration [] = Inr True"
| "is_slot_available slot_start duration (b # busy_slots) =
     (let slot_end = slot_start + timedelta_minutes duration
      in case fromisoformat (busy_start b) of
           Inl e \<Rightarrow> Inl e
         | Inr bs \<Rightarrow>
             (case fromisoformat (busy_end b) of
                Inl e \<Rightarrow> Inl e
              | Inr be \<Rightarrow>
                  (let bs = (if tzinfo bs \<noteq> None then replace_tzinfo_None bs else bs);
                       be = (if tzinfo be \<noteq> None then replace_tzinfo_None be else be)
                   in if slot_start < naive be \<and> slot_end > naive bs then Inr False
                      else is_slot_available slot_start duration busy_slots)))"

record slot =
  slot_start_time :: string
  slot_end_time :: string
  slot_datetime :: datetime

text \<open>
  The three dictionaries \<open>get_available_slots\<close> returns: the error
  (\<open>error\<close>, \<open>message\<close>), the day that is not a working day (\<open>date\<close>,
  \<open>appointment_type\<close>, \<open>duration\<close>, \<open>available_slots\<close>, \<open>message\<close>) and the
  working day (\<open>date\<close>, \<open>day_of_week\<close>, \<open>appointment_type\<close>, \<open>duration\<close>,
  \<open>available_slots\<close>, \<open>total_slots\<close>).
\<close>

datatype slots_info =
  ErrorInfo string
| NotWorkingInfo date string int "slot list" string
| DayInfo date string string int "slot list" nat

text \<open>\<open>'error' in info\<close> and \<open>info.get('available_slots')\<close>\<close>

fun has_error :: "slots_info \<Rightarrow> bool" where
  "has_error (ErrorInfo m) = True"
| "has_error (NotWorkingInfo d t n sl m) = False"
| "has_error (DayInfo d w t n sl k) = False"

fun get_slots :: "slots_info \<Rightarrow> slot list option" where
  "get_slots (ErrorInfo m) = None"
| "get_slots (NotWorkingInfo d t n sl m) = Some sl"
| "get_slots (DayInfo d w t n sl k) = Some sl"

text \<open>The \<open>for\<close> loop of \<open>get_available_slots\<close>.\<close>

fun filter_slots :: "datetime list \<Rightarrow> int \<Rightarrow> busy list \<Rightarrow> time \<Rightarrow> py_error + slot list" where
  "filter_slots [] duration busy_slots end_time = Inr []"
| "filter_slots (s # all_slots) duration busy_slots end_time =
     (case is_slot_available s duration busy_slots of
        Inl e \<Rightarrow> Inl e
      | Inr available \<Rightarrow>
          (case filter_slots all_slots duration busy_slots end_time of
             Inl e \<Rightarrow> Inl e
           | Inr rest \<Rightarrow>
               (let slot_end = s + timedelta_minutes duration
                in if available \<and> dt_time slot_end \<le> end_time
                   then Inr (\<lparr>slot_start_time = strftime_HM s,
                              slot_end_time = strftime_HM slot_end,
                              slot_datetime = s\<rparr> # rest)
                   else Inr rest)))"

definition get_available_slots ::
  "world \<Rightarrow> datetime \<Rightarrow> string \<Rightarrow> (py_error + slots_info) option" where
  "get_available_slots w date appointment_type =
     (case get_appointment_duration appointment_type of
        None \<Rightarrow> Some (Inr (ErrorInfo (''Invalid appointment type: '' @ appointment_type)))
      | Some duration \<Rightarrow>
          if duration = 0
          then Some (Inr (ErrorInfo (''Invalid appointment type: '' @ appointment_type)))
          else if \<not> is_working_day date
          then Some (Inr (NotWorkingInfo (dt_date date) appointment_type duration []
                            ''Not a working day''))
          else
            (case get_working_hours (lower (strftime_A date)) of
               None \<Rightarrow> Some (Inl KeyError)
             | Some hours \<Rightarrow>
                 (case parse_time_string (wh_start hours) of
                    Inl e \<Rightarrow> Some (Inl e)
                  | Inr start_time \<Rightarrow>
                      (case parse_time_string (wh_end hours) of
                         Inl e \<Rightarrow> Some (Inl e)
                       | Inr end_time \<Rightarrow>
                           (case generate_time_slots start_time end_time date slot_interval of
                              None \<Rightarrow> None
                            | Some all_slots \<Rightarrow>
                                (let busy_slots = snd (get_busy_time_slots w date)
                                 in case filter_slots all_slots duration busy_slots end_time of
                                      Inl e \<Rightarrow> Some (Inl e)
                                    | Inr available_slots \<Rightarrow>
                                        (case APPOINTMENT_TYPES appointment_type of
                                           None \<Rightarrow> Some (Inl KeyError)
                                         | Some info \<Rightarrow>
                                             Some (Inr (DayInfo (dt_date date) (strftime_A date)
                                               (at_name info) duration available_slots
                                               (length available_slots))))))))))"

text \<open>Python's truth value of \<open>info.get('available_slots')\<close>.\<close>

definition truthy_slots :: "slot list option \<Rightarrow> bool" where
  "truthy_slots v = (case v of None \<Rightarrow> False | Some sl \<Rightarrow> sl \<noteq> [])"

function range_loop ::
  "world \<Rightarrow> datetime \<Rightarrow> datetime \<Rightarrow> string \<Rightarrow> slots_info list \<Rightarrow>
   (py_error + slots_info list) option" where
  "range_loop w current_date end_date appointment_type results =
     (if current_date \<le> end_date
      then (case get_available_slots w current_date appointment_type of
              None \<Rightarrow> None
            | Some (Inl e) \<Rightarrow> Some (Inl e)
            | Some (Inr slots) \<Rightarrow>
                (case add_timedelta current_date (timedelta_days 1) of
                   Inl e \<Rightarrow> Some (Inl e)
                 | Inr next_date \<Rightarrow>
                     range_loop w next_date end_date appointment_type
                       (if truthy_slots (get_slots slots) then results @ [slots]
                        else results)))
      else Some (Inr results))"
  by pat_completeness auto
termination
  by (relation "measure (\<lambda>(w, c, e, t, r). nat (e - c + 1))")
     (auto simp: timedelta_days_def add_timedelta_def split: if_splits)

definition get_available_slots_range ::
  "world \<Rightarrow> datetime \<Rightarrow> datetime \<Rightarrow> string \<Rightarrow> (py_error + slots_info list) option" where
  "get_available_slots_range w start_date end_date appointment_type =
     range_loop w start_date end_date appointment_type []"

datatype next_slot =
  Found date slot string int
| NotFound string

definition get_next_available_slot ::
  "world \<Rightarrow> string \<Rightarrow> datetime option \<Rightarrow> (py_error + next_slot) option" where
  "get_next_available_slot w appointment_type start_from =
     (let start_from = (case start_from of None \<Rightarrow> now w | Some d \<Rightarrow> d);
          not_found = NotFound (''No available slots found in the next 30 days for '' @
                                appointment_type)
      in case add_timedelta start_from (timedelta_days 30) of
           Inl e \<Rightarrow> Some (Inl e)
         | Inr end_date \<Rightarrow>
      (case get_available_slots_range w start_from end_date appointment_type of
           None \<Rightarrow> None
         | Some (Inl e) \<Rightarrow> Some (Inl e)
         | Some (Inr []) \<Rightarrow> Some (Inr not_found)
         | Some (Inr (first_day # days)) \<Rightarrow>
             (case first_day of
                ErrorInfo m \<Rightarrow> Some (Inl KeyError)
              | NotWorkingInfo d t n sl m \<Rightarrow>
                  (case sl of
                     [] \<Rightarrow> Some (Inr not_found)
                   | first_slot # rest \<Rightarrow> Some (Inr (Found d first_slot t n)))
              | DayInfo d wd t n sl k \<Rightarrow>
                  (case sl of
                     [] \<Rightarrow> Some (Inr not_found)
                   | first_slot # rest \<Rightarrow> Some (Inr (Found d first_slot t n))))))"

section \<open>Booking service (\<open>src/appointment_booking.py\<close>)\<close>

text \<open>A booking request: a dictionary from field names to strings.\<close>

type_synonym request = "string \<rightharpoonup> string"

definition required_fields :: "string list" where
  "required_fields = [''appointment_type'', ''date'', ''time'', ''patient_name'',
                      ''patient_email'']"

text \<open>The \<open>for\<close> loop over the required fields: the first one missing or empty.\<close>

fun check_required :: "string list \<Rightarrow> request \<Rightarrow> string option" where
  "check_required [] appointment_data = None"
| "check_required (field # others) appointment_data =
     (if appointment_data field = None \<or> appointment_data field = Some []
      then Some field
      else check_required others appointment_data)"

definition validate_appointment_data :: "request \<Rightarrow> py_error + bool \<times> string option" where
  "validate_appointment_data appointment_data =
     (case check_required required_fields appointment_data of
        Some field \<Rightarrow> Inr (False, Some (''Missing required field: '' @ field))
      | None \<Rightarrow>
     (case appointment_data ''appointment_type'' of
        None \<Rightarrow> Inl KeyError
      | Some ty \<Rightarrow>
          if APPOINTMENT_TYPES ty = None
          then Inr (False, Some (''Invalid appointment type: '' @ ty))
          else
     (case appointment_data ''date'' of
        None \<Rightarrow> Inl KeyError
      | Some date_str \<Rightarrow>
     (case strptime_Ymd date_str of
        Inl e \<Rightarrow>
          if e = ValueError then Inr (False, Some ''Invalid date format. Use YYYY-MM-DD'')
          else Inl e
      | Inr appointment_date \<Rightarrow>
     (case appointment_data ''time'' of
        None \<Rightarrow> Inl KeyError
      | Some time_str \<Rightarrow>
     (case strptime_HM time_str of
        Inl e \<Rightarrow>
          if e = ValueError then Inr (False, Some ''Invalid time format. Use HH:MM'')
          else Inl e
      | Inr appointment_time \<Rightarrow>
     (case appointment_data ''patient_email'' of
        None \<Rightarrow> Inl KeyError
      | Some email \<Rightarrow>
          if CHR ''@'' \<notin> set email then Inr (False, Some ''Invalid email format'')
          else Inr (True, None))))))))"

definition check_slot_availability ::
  "world \<Rightarrow> string \<Rightarrow> string \<Rightarrow> string \<Rightarrow> (py_error + bool \<times> string) option" where
  "check_slot_availability w appointment_type date_str time_str =
     (case strptime_Ymd date_str of
        Inl e \<Rightarrow> Some (Inl e)
      | Inr appointment_date \<Rightarrow>
     (case strptime_HM time_str of
        Inl e \<Rightarrow> Some (Inl e)
      | Inr appointment_time \<Rightarrow>
     (case get_available_slots w appointment_date appointment_type of
        None \<Rightarrow> None
      | Some (Inl e) \<Rightarrow> Some (Inl e)
      | Some (Inr slots_info) \<Rightarrow>
          (case slots_info of
             ErrorInfo message \<Rightarrow> Some (Inr (False, message))
           | _ \<Rightarrow>
               (case get_slots slots_info of
                  None \<Rightarrow> Some (Inl KeyError)
                | Some available_slots \<Rightarrow>
                    if available_slots = []
                    then Some (Inr (False, ''No available slots on '' @ date_str))
                    else if list_ex (\<lambda>slot. slot_start_time slot = time_str) available_slots
                    then Some (Inr (True, ''Slot is available''))
                    else Some (Inr (False, ''Time slot '' @ time_str @
                                           '' is not available on '' @ date_str)))))))"

record patient =
  patient_name :: string
  patient_email :: string
  patient_phone :: string

record appointment_details =
  ad_type :: string
  ad_duration :: int
  ad_date :: string
  ad_start_time :: string
  ad_end_time :: string
  ad_patient :: patient
  ad_notes :: string
  ad_status :: string

text \<open>
  The result of a booking: \<open>{'success': False, 'error': e}\<close> or the success
  dictionary with \<open>booking_id\<close>, \<open>appointment_details\<close>, \<open>message\<close> and
  \<open>next_steps\<close>.
\<close>

datatype booking_result =
  Failure "string option"
| Success string appointment_details string "string list"

text \<open>
  \<open>uuid.uuid4()\<close> draws from the operating system's random source.  The source is
  a state: the sequence of identifiers it is going to hand out and the number
  already handed out.
\<close>

record rng =
  draws :: "nat \<Rightarrow> string"
  drawn :: nat

definition uuid4 :: "rng \<Rightarrow> string \<times> rng" where
  "uuid4 g = (draws g (drawn g), g\<lparr>drawn := Suc (drawn g)\<rparr>)"

definition simulate_booking ::
  "request \<Rightarrow> appointment_type option \<Rightarrow> datetime \<Rightarrow> rng \<Rightarrow>
   (py_error + booking_result) \<times> rng" where
  "simulate_booking appointment_data appointment_info start_datetime g =
     (case appointment_info of
        None \<Rightarrow> (Inl TypeError, g)
      | Some info \<Rightarrow>
          (let end_datetime = start_datetime + timedelta_minutes (at_duration info);
               (booking_id, g') = uuid4 g
           in case (appointment_data ''date'', appointment_data ''time'',
                    appointment_data ''patient_name'', appointment_data ''patient_email'') of
                (Some date_str, Some time_str, Some name, Some email) \<Rightarrow>
                  (Inr (Success booking_id
                     \<lparr>ad_type = at_name info,
                      ad_duration = at_duration info,
                      ad_date = date_str,
                      ad_start_time = time_str,
                      ad_end_time = strftime_HM end_datetime,
                      ad_patient =
                        \<lparr>patient_name = name,
                         patient_email = email,
                         patient_phone =
                           (case appointment_data ''patient_phone'' of
                              None \<Rightarrow> ''N/A'' | Some p \<Rightarrow> p)\<rparr>,
                      ad_notes =
                        (case appointment_data ''notes'' of None \<Rightarrow> [] | Some n \<Rightarrow> n),
                      ad_status = ''scheduled''\<rparr>
                     ''Appointment booked successfully''
                     [''Confirmation email will be sent to the patient'',
                      ''Calendar invite will be sent'',
                      ''Please arrive 10 minutes before appointment time'']), g')
              | _ \<Rightarrow> (Inl KeyError, g')))"

definition create_appointment ::
  "world \<Rightarrow> request \<Rightarrow> rng \<Rightarrow> (py_error + booking_result) option \<times> rng" where
  "create_appointment w appointment_data g =
     (case validate_appointment_data appointment_data of
        Inl e \<Rightarrow> (Some (Inl e), g)
      | Inr (is_valid, error_message) \<Rightarrow>
          if \<not> is_valid then (Some (Inr (Failure error_message)), g)
          else
     (case (appointment_data ''appointment_type'', appointment_data ''date'',
            appointment_data ''time'') of
        (Some ty, Some date_str, Some time_str) \<Rightarrow>
          (case check_slot_availability w ty date_str time_str of
             None \<Rightarrow> (None, g)
           | Some (Inl e) \<Rightarrow> (Some (Inl e), g)
           | Some (Inr (is_available, message)) \<Rightarrow>
               if \<not> is_available then (Some (Inr (Failure (Some message))), g)
               else
                 (let appointment_info = get_appointment_info ty
                  in case strptime_Ymd date_str of
                       Inl e \<Rightarrow> (Some (Inl e), g)
                     | Inr appointment_date \<Rightarrow>
                         (case strptime_HM time_str of
                            Inl e \<Rightarrow> (Some (Inl e), g)
                          | Inr appointment_time \<Rightarrow>
                              (let start_datetime =
                                     combine (dt_date appointment_date) appointment_time;
                                   (r, g') = simulate_booking appointment_data
                                               appointment_info start_datetime g
                               in (Some r, g')))))
      | _ \<Rightarrow> (Some (Inl KeyError), g)))"

section \<open>The validation order of the specification\<close>

text \<open>
  The specification describes validation as five checks, run in order, the first
  violated one giving the error.  Each check is written here as the specification
  words it, on the whole request and independent of the others; \<open>spec_validate\<close>
  is the verdict of the first that is violated.
\<close>

datatype validation_error =
  MissingRequiredField string
| InvalidAppointmentType string
| MalformedDate
| MalformedTime
| MalformedEmail

fun error_message :: "validation_error \<Rightarrow> string" where
  "error_message (MissingRequiredField field) = ''Missing required field: '' @ field"
| "error_message (InvalidAppointmentType ty) = ''Invalid appointment type: '' @ ty"
| "error_message MalformedDate = ''Invalid date format. Use YYYY-MM-DD''"
| "error_message MalformedTime = ''Invalid time format. Use HH:MM''"
| "error_message MalformedEmail = ''Invalid email format''"

text \<open>1. Required fields present and non-empty.\<close>

definition spec_required :: "request \<Rightarrow> validation_error option" where
  "spec_required data =
     map_option MissingRequiredField
       (find (\<lambda>field. data field = None \<or> data field = Some [])
          [''appointment_type'', ''date'', ''time'', ''patient_name'', ''patient_email''])"

text \<open>2. The appointment type id exists in the type catalog.\<close>

definition spec_type_known :: "request \<Rightarrow> validation_error option" where
  "spec_type_known data =
     (case data ''appointment_type'' of
        None \<Rightarrow> Some (InvalidAppointmentType [])
      | Some ty \<Rightarrow>
          if APPOINTMENT_TYPES ty \<noteq> None then None else Some (InvalidAppointmentType ty))"

text \<open>3. The date string parses as a calendar date in YYYY-MM-DD.\<close>

definition spec_date_parses :: "request \<Rightarrow> validation_error option" where
  "spec_date_parses data =
     (case data ''date'' of
        None \<Rightarrow> Some MalformedDate
      | Some s \<Rightarrow> (case strptime_Ymd s of Inl e \<Rightarrow> Some MalformedDate | Inr d \<Rightarrow> None))"

text \<open>4. The time string parses as HH:MM.\<close>

definition spec_time_parses :: "request \<Rightarrow> validation_error option" where
  "spec_time_parses data =
     (case data ''time'' of
        None \<Rightarrow> Some MalformedTime
      | Some s \<Rightarrow> (case strptime_HM s of Inl e \<Rightarrow> Some MalformedTime | Inr t \<Rightarrow> None))"

text \<open>5. The email contains at least one \<open>@\<close>.\<close>

definition spec_email_has_at :: "request \<Rightarrow> validation_error option" where
  "spec_email_has_at data =
     (case data ''patient_email'' of
        None \<Rightarrow> Some MalformedEmail
      | Some email \<Rightarrow> if CHR ''@'' \<in> set email then None else Some MalformedEmail)"

definition spec_checks :: "(request \<Rightarrow> validation_error option) list" where
  "spec_checks =
     [spec_required, spec_type_known, spec_date_parses, spec_time_parses, spec_email_has_at]"

fun first_violation ::
  "(request \<Rightarrow> validation_error option) list \<Rightarrow> request \<Rightarrow> validation_error option" where
  "first_violation [] data = None"
| "first_violation (check # checks) data =
     (case check data of
        Some e \<Rightarrow> Some e
      | None \<Rightarrow> first_violation checks data)"

definition spec_validate :: "request \<Rightarrow> bool \<times> string option" where
  "spec_validate data =
     (case first_violation spec_checks data of
        None \<Rightarrow> (True, None)
      | Some e \<Rightarrow> (False, Some (error_message e)))"

section \<open>Concrete inputs\<close>

text \<open>
  Monday 2024-01-01 is day 738886.  \<open>busy_world\<close> is a calendar with one active
  event on that day, 09:30 to 17:00 wall-clock time, sent with an offset of two hours;
  \<open>free_world\<close> is a calendar without events; in \<open>failing_world\<close> every request
  to the calendar fails.
\<close>

definition monday :: datetime where
  "monday = combine 738886 0"

definition sunday :: datetime where
  "sunday = combine 738892 0"

definition busy_event :: event where
  "busy_event =
     \<lparr>ev_uri = Some ''https://api.calendly.com/scheduled_events/AAA'',
      ev_name = Some ''Consultation'',
      ev_start_time = ISO (combine 738886 (mk_time 9 30 0 0)) (Some 120),
      ev_end_time = ISO (combine 738886 (mk_time 17 0 0 0)) (Some 120),
      ev_status = Some ''active'',
      ev_location = None,
      ev_invitees_counter = None\<rparr>"

definition busy_world :: world where
  "busy_world = \<lparr>scheduled_events = (\<lambda>s e. Collection [busy_event]), utcnow = 0, now = 0\<rparr>"

definition free_world :: world where
  "free_world = \<lparr>scheduled_events = (\<lambda>s e. Collection []), utcnow = 0, now = 0\<rparr>"

definition failing_world :: world where
  "failing_world =
     \<lparr>scheduled_events = (\<lambda>s e. ErrorResponse ''503 Server Error''), utcnow = 0, now = 0\<rparr>"

definition first_slot_of_monday :: slot where
  "first_slot_of_monday =
     \<lparr>slot_start_time = ''09:00'', slot_end_time = ''09:30'',
      slot_datetime = combine 738886 (mk_time 9 0 0 0)\<rparr>"

definition busy_of_monday :: busy where
  "busy_of_monday =
     \<lparr>busy_start = ISO (combine 738886 (mk_time 9 30 0 0)) (Some 120),
      busy_end = ISO (combine 738886 (mk_time 17 0 0 0)) (Some 120)\<rparr>"

definition saturday :: datetime where
  "saturday = combine 738891 0"

text \<open>What a caller reads off a result: the start times and the dates it lists.\<close>

definition returned_start_times :: "(py_error + slots_info) option \<Rightarrow> string list" where
  "returned_start_times r =
     (case r of
        Some (Inr info) \<Rightarrow>
          (case get_slots info of None \<Rightarrow> [] | Some sl \<Rightarrow> map slot_start_time sl)
      | _ \<Rightarrow> [])"

fun info_date :: "slots_info \<Rightarrow> date option" where
  "info_date (ErrorInfo m) = None"
| "info_date (NotWorkingInfo d t n sl m) = Some d"
| "info_date (DayInfo d wd t n sl k) = Some d"

definition returned_dates :: "(py_error + slots_info list) option \<Rightarrow> date option list" where
  "returned_dates r = (case r of Some (Inr infos) \<Rightarrow> map info_date infos | _ \<Rightarrow> [])"

text \<open>
  The number of times the loop of \<open>get_available_slots_range\<close> runs its body:
  once for each of the instants \<open>current_date\<close>, \<open>current_date\<close> plus one day,
  and so on, that are not after \<open>end_date\<close>.
\<close>

definition visits :: "datetime \<Rightarrow> datetime \<Rightarrow> nat" where
  "visits current_date end_date =
     (if current_date \<le> end_date
      then nat ((end_date - current_date) div 86400000000) + 1 else 0)"

text \<open>Thursday 2024-01-04 at 10:00 and Saturday 2024-01-06 at 09:00.\<close>

definition thursday_10 :: datetime where
  "thursday_10 = combine 738889 (mk_time 10 0 0 0)"

definition saturday_9 :: datetime where
  "saturday_9 = combine 738891 (mk_time 9 0 0 0)"

definition monday_info :: slots_info where
  "monday_info =
     DayInfo 738886 ''Monday'' ''General Consultation'' 30 [first_slot_of_monday] 1"

text \<open>
  The result of \<open>get_available_slots\<close> for the \<open>k\<close>-th day of a search, and
  whether a call returned a result.
\<close>

definition day_info :: "world \<Rightarrow> datetime \<Rightarrow> string \<Rightarrow> nat \<Rightarrow> slots_info" where
  "day_info w start t k =
     (case get_available_slots w (start + timedelta_days (int k)) t of
        Some (Inr info) \<Rightarrow> info
      | _ \<Rightarrow> ErrorInfo [])"

definition returns_result :: "(py_error + 'a) option \<Rightarrow> bool" where
  "returns_result r = (case r of Some (Inr v) \<Rightarrow> True | _ \<Rightarrow> False)"

text \<open>Sunday 2023-12-31, the day before \<open>monday\<close>.\<close>

definition new_years_eve :: datetime where
  "new_years_eve = combine 738885 0"

text \<open>A busy interval both of whose timestamps \<open>fromisoformat\<close> accepts.\<close>

fun parses :: "wire_time \<Rightarrow> bool" where
  "parses (ISO dt off) = True"
| "parses NotAString = False"
| "parses NotISO = False"

definition well_formed :: "busy \<Rightarrow> bool" where
  "well_formed b = (parses (busy_start b) \<and> parses (busy_end b))"

text \<open>A booking request for Monday at 09:00, and the same with a bad email.\<close>

definition booking_request :: request where
  "booking_request =
     [''appointment_type'' \<mapsto> ''general_consultation'',
      ''date'' \<mapsto> ''2024-01-01'',
      ''time'' \<mapsto> ''09:00'',
      ''patient_name'' \<mapsto> ''Ada Lovelace'',
      ''patient_email'' \<mapsto> ''ada@example.org'']"

definition bad_email_request :: request where
  "bad_email_request = booking_request(''patient_email'' \<mapsto> ''not-an-email'')"

definition some_rng :: rng where
  "some_rng = \<lparr>draws = (\<lambda>n. ''booking-'' @ replicate n CHR ''x''), drawn = 3\<rparr>"

text \<open>
  Wednesday 9999-12-15 at 09:00, whose 30-day horizon lies after \<open>datetime.max\<close>.
\<close>

definition december_9999 :: datetime where
  "december_9999 = combine 3652043 (mk_time 9 0 0 0)"

section \<open>Properties of the slot engine\<close>

lemma generate_loop_returns:
  assumes "0 < interval"
  shows "\<exists>ys. generate_loop c e interval acc = Some (acc @ ys) \<and> sorted ys \<and>
              (\<forall>y\<in>set ys. c \<le> y \<and> y < e)"
  using assms
proof (induction "nat (e - c)" arbitrary: c acc rule: less_induct)
  case less
  show ?case
  proof (cases "c < e")
    case False
    then show ?thesis by (subst generate_loop.simps) simp
  next
    case True
    let ?c' = "c + timedelta_minutes interval"
    have step: "0 < timedelta_minutes interval"
      using less.prems by (simp add: timedelta_minutes_def)
    then have "nat (e - ?c') < nat (e - c)" using True by linarith
    from less.hyps [OF this less.prems, of "acc @ [c]"]
    obtain ys where ys: "generate_loop ?c' e interval (acc @ [c]) = Some ((acc @ [c]) @ ys)"
      "sorted ys" "\<forall>y\<in>set ys. ?c' \<le> y \<and> y < e" by blast
    have "generate_loop c e interval acc = Some (acc @ (c # ys))"
      using True ys(1) by (subst generate_loop.simps) simp
    moreover have "sorted (c # ys)" using ys(2,3) step by fastforce
    moreover have "\<forall>y\<in>set (c # ys). c \<le> y \<and> y < e" using ys(3) step True by fastforce
    ultimately show ?thesis by blast
  qed
qed

lemma catalog_durations:
  "APPOINTMENT_TYPES t = Some info \<Longrightarrow> at_duration info \<in> {15, 30, 45, 60}"
  by (auto simp: APPOINTMENT_TYPES_def split: if_splits)

lemma working_hours_cases:
  assumes "get_working_hours k = Some hours" "wh_available hours"
  shows "(wh_start hours = Some ''09:00'' \<and> wh_end hours = Some ''17:00'') \<or>
         (wh_start hours = Some ''10:00'' \<and> wh_end hours = Some ''14:00'')"
  using assms by (auto simp: get_working_hours_def split: if_splits)

lemmas strptime_defs = strptime_HM_def re_H_def re_M_def digits_def match_literal_def py_int_def digit_val_def mk_time_def

lemma parse_0900: "parse_time_string (Some ''09:00'') = Inr 32400000000"
  by (simp add: parse_time_string_def strptime_defs)

lemma parse_1700: "parse_time_string (Some ''17:00'') = Inr 61200000000"
  by (simp add: parse_time_string_def strptime_defs)

lemma parse_1000: "parse_time_string (Some ''10:00'') = Inr 36000000000"
  by (simp add: parse_time_string_def strptime_defs)

lemma parse_1400: "parse_time_string (Some ''14:00'') = Inr 50400000000"
  by (simp add: parse_time_string_def strptime_defs)

lemma is_slot_available_True:
  assumes "is_slot_available s d bl = Inr True" "b \<in> set bl"
  shows "\<exists>bs be. fromisoformat (busy_start b) = Inr bs \<and> fromisoformat (busy_end b) = Inr be \<and>
           \<not> (s < naive be \<and> s + timedelta_minutes d > naive bs)"
  using assms
  by (induction bl) (auto simp: Let_def replace_tzinfo_None_def split: sum.splits if_splits)

lemma filter_slots_Inr:
  assumes "filter_slots all d bl e = Inr sl"
  shows "map slot_datetime sl =
           filter (\<lambda>s. is_slot_available s d bl = Inr True \<and> dt_time (s + timedelta_minutes d) \<le> e) all \<and>
         (\<forall>x\<in>set sl. slot_start_time x = strftime_HM (slot_datetime x) \<and>
                     slot_end_time x = strftime_HM (slot_datetime x + timedelta_minutes d))"
  using assms
  by (induction all arbitrary: sl) (auto simp: Let_def split: sum.splits if_splits)

lemma get_available_slots_working:
  assumes "get_available_slots w date t = Some (Inr info)" "is_working_day date"
    "APPOINTMENT_TYPES t = Some ty"
  obtains hours start_time end_time all_slots sl where
    "get_working_hours (lower (strftime_A date)) = Some hours"
    "parse_time_string (wh_start hours) = Inr start_time"
    "parse_time_string (wh_end hours) = Inr end_time"
    "generate_time_slots start_time end_time date slot_interval = Some all_slots"
    "filter_slots all_slots (at_duration ty) (snd (get_busy_time_slots w date)) end_time = Inr sl"
    "info = DayInfo (dt_date date) (strftime_A date) (at_name ty) (at_duration ty) sl (length sl)"
  using assms catalog_durations [OF assms(3)]
  unfolding get_available_slots_def get_appointment_duration_def
  by (auto simp: Let_def split: option.splits sum.splits if_splits)

lemma get_available_slots_not_working:
  assumes "APPOINTMENT_TYPES t = Some ty" "\<not> is_working_day date"
  shows "get_available_slots w date t =
           Some (Inr (NotWorkingInfo (dt_date date) t (at_duration ty) [] ''Not a working day''))"
  using assms catalog_durations [OF assms(1)]
  unfolding get_available_slots_def get_appointment_duration_def
  by auto

lemma get_available_slots_invalid:
  assumes "APPOINTMENT_TYPES t = None"
  shows "get_available_slots w date t = Some (Inr (ErrorInfo (''Invalid appointment type: '' @ t)))"
  using assms unfolding get_available_slots_def get_appointment_duration_def by simp

lemma get_available_slots_same_busy:
  assumes "snd (get_busy_time_slots w1 date) = snd (get_busy_time_slots w2 date)"
  shows "get_available_slots w1 date t = get_available_slots w2 date t"
  unfolding get_available_slots_def assms by (rule refl)

lemma working_window:
  assumes "is_working_day date"
  obtains hours s e where
    "get_working_hours (lower (strftime_A date)) = Some hours"
    "parse_time_string (wh_start hours) = Inr s"
    "parse_time_string (wh_end hours) = Inr e"
    "0 \<le> s" "s < e" "e \<le> 61200000000"
proof -
  from assms obtain hours where h: "get_working_hours (lower (strftime_A date)) = Some hours"
    "wh_available hours"
    by (auto simp: is_working_day_def split: option.splits)
  from working_hours_cases [OF h] show ?thesis
    using that [OF h(1)] by (auto simp: parse_0900 parse_1700 parse_1000 parse_1400)
qed

lemma no_wrap:
  assumes "combine D s \<le> x" "x < combine D e" "0 \<le> s" "e \<le> 61200000000" "0 \<le> d" "d \<le> 60"
    "dt_time (x + timedelta_minutes d) \<le> e"
  shows "x + timedelta_minutes d \<le> combine D e"
proof -
  define r where "r = x - D * 86400000000"
  have r: "0 \<le> r" "r < 61200000000" using assms(1-4) by (auto simp: r_def combine_def)
  have "x + timedelta_minutes d = D * 86400000000 + (r + d * 60000000)"
    by (simp add: r_def timedelta_minutes_def)
  then have "dt_time (x + timedelta_minutes d) = (r + d * 60000000) mod 86400000000"
    by (simp add: dt_time_def)
  also have "\<dots> = r + d * 60000000" using r assms(5,6) by (intro mod_pos_pos_trivial) auto
  finally have "r + d * 60000000 \<le> e" using assms(7) by simp
  then show ?thesis by (simp add: r_def combine_def timedelta_minutes_def)
qed

lemma get_slots_cases:
  assumes "get_available_slots w date t = Some (Inr info)" "get_slots info = Some sl" "sl \<noteq> []"
  obtains ty hours start_time end_time all_slots where
    "APPOINTMENT_TYPES t = Some ty" "is_working_day date"
    "get_working_hours (lower (strftime_A date)) = Some hours"
    "parse_time_string (wh_start hours) = Inr start_time"
    "parse_time_string (wh_end hours) = Inr end_time"
    "generate_time_slots start_time end_time date slot_interval = Some all_slots"
    "filter_slots all_slots (at_duration ty) (snd (get_busy_time_slots w date)) end_time = Inr sl"
    "info = DayInfo (dt_date date) (strftime_A date) (at_name ty) (at_duration ty) sl (length sl)"
proof (cases "APPOINTMENT_TYPES t")
  case None
  from get_available_slots_invalid [OF this, of w date] assms show ?thesis by simp
next
  case (Some ty)
  show ?thesis
  proof (cases "is_working_day date")
    case False
    from get_available_slots_not_working [OF Some this, of w] assms show ?thesis by simp
  next
    case True
    from get_available_slots_working [OF assms(1) True Some] assms(2) that [OF Some True]
    show ?thesis by (metis get_slots.simps(3) option.inject)
  qed
qed

lemma generate_time_slots_bounds:
  assumes "generate_time_slots s e date slot_interval = Some all_slots"
  shows "sorted all_slots \<and> (\<forall>x\<in>set all_slots. combine (dt_date date) s \<le> x \<and> x < combine (dt_date date) e)"
proof -
  have "0 < slot_interval" by (simp add: slot_interval_def)
  from generate_loop_returns [OF this, of "combine (dt_date date) s" "combine (dt_date date) e" "[]"]
  show ?thesis using assms by (auto simp: generate_time_slots_def)
qed

lemma working_window_bounds:
  assumes "is_working_day date"
    and "get_working_hours (lower (strftime_A date)) = Some hours"
    and "parse_time_string (wh_start hours) = Inr s"
    and "parse_time_string (wh_end hours) = Inr e"
  shows "0 \<le> s \<and> s < e \<and> e \<le> 61200000000"
proof -
  from assms(1,2) have "wh_available hours"
    by (simp add: is_working_day_def)
  from working_hours_cases [OF assms(2) this] assms(3,4) show ?thesis
    by (auto simp: parse_0900 parse_1700 parse_1000 parse_1400)
qed

lemma returned_slot_facts:
  assumes "get_available_slots w date t = Some (Inr info)"
    and "get_slots info = Some sl" and "slot \<in> set sl"
    and "get_appointment_duration t = Some d"
    and "get_working_hours (lower (strftime_A date)) = Some hours"
    and "parse_time_string (wh_start hours) = Inr s"
    and "parse_time_string (wh_end hours) = Inr e"
  shows "is_slot_available (slot_datetime slot) d (snd (get_busy_time_slots w date)) = Inr True"
    and "dt_time (slot_datetime slot + timedelta_minutes d) \<le> e"
    and "combine (dt_date date) s \<le> slot_datetime slot"
    and "slot_datetime slot < combine (dt_date date) e"
    and "is_working_day date"
proof -
  from assms(3) have ne: "sl \<noteq> []" by auto
  have "is_slot_available (slot_datetime slot) d (snd (get_busy_time_slots w date)) = Inr True \<and>
        dt_time (slot_datetime slot + timedelta_minutes d) \<le> e \<and>
        combine (dt_date date) s \<le> slot_datetime slot \<and>
        slot_datetime slot < combine (dt_date date) e \<and> is_working_day date"
  proof (rule get_slots_cases [OF assms(1,2) ne])
    fix ty hours' s' e' all_slots
    assume ty: "APPOINTMENT_TYPES t = Some ty" and wd: "is_working_day date"
      and h: "get_working_hours (lower (strftime_A date)) = Some hours'"
      and ps: "parse_time_string (wh_start hours') = Inr s'"
      and pe: "parse_time_string (wh_end hours') = Inr e'"
      and gen: "generate_time_slots s' e' date slot_interval = Some all_slots"
      and fs: "filter_slots all_slots (at_duration ty) (snd (get_busy_time_slots w date)) e' = Inr sl"
    from h assms(5) have "hours' = hours" by simp
    with ps pe assms(6,7) have eq: "s' = s" "e' = e" by simp_all
    from ty assms(4) have d: "at_duration ty = d" by (simp add: get_appointment_duration_def)
    from filter_slots_Inr [OF fs] have
      m: "map slot_datetime sl = filter (\<lambda>x. is_slot_available x d (snd (get_busy_time_slots w date)) = Inr True
          \<and> dt_time (x + timedelta_minutes d) \<le> e) all_slots"
      unfolding d eq by simp
    from assms(3) have "slot_datetime slot \<in> set (map slot_datetime sl)" by simp
    then have in_f: "slot_datetime slot \<in> set (filter (\<lambda>x. is_slot_available x d (snd (get_busy_time_slots w date)) = Inr True
          \<and> dt_time (x + timedelta_minutes d) \<le> e) all_slots)"
      unfolding m .
    then have mem: "slot_datetime slot \<in> set all_slots" by simp
    from generate_time_slots_bounds [OF gen] mem
    have "combine (dt_date date) s \<le> slot_datetime slot \<and> slot_datetime slot < combine (dt_date date) e"
      unfolding eq by simp
    with in_f wd show ?thesis by simp
  qed
  then show "is_slot_available (slot_datetime slot) d (snd (get_busy_time_slots w date)) = Inr True"
    and "dt_time (slot_datetime slot + timedelta_minutes d) \<le> e"
    and "combine (dt_date date) s \<le> slot_datetime slot"
    and "slot_datetime slot < combine (dt_date date) e"
    and "is_working_day date" by simp_all
qed

lemma busy_world_monday:
  "get_available_slots busy_world monday ''general_consultation'' =
     Some (Inr (DayInfo 738886 ''Monday'' ''General Consultation'' 30 [first_slot_of_monday] 1))"
  by code_simp

lemma busy_world_monday_busy:
  "snd (get_busy_time_slots busy_world monday) = [busy_of_monday]"
  by code_simp

lemma monday_hours:
  "get_working_hours (lower (strftime_A monday)) =
     Some \<lparr>wh_start = Some ''09:00'', wh_end = Some ''17:00'', wh_available = True\<rparr>"
  by code_simp

lemma weekday_lt7: "weekday d < 7"
  by (simp add: weekday_def)

lemma is_working_day_iff: "is_working_day date = (weekday (dt_date date) \<noteq> 6)"
proof -
  have "weekday (dt_date date) \<in> {0, 1, 2, 3, 4, 5, 6}"
    using weekday_lt7 [of "dt_date date"] by auto
  then show ?thesis
    by (elim insertE)
       (simp_all add: is_working_day_def strftime_A_def day_names_def lower_def lower_char_def
          get_working_hours_def)
qed

lemma get_busy_time_slots_error:
  assumes "scheduled_events w (replace_time date 0 0 0 0) (replace_time date 23 59 59 999999) =
             ErrorResponse msg"
  shows "get_existing_appointments w (Some (replace_time date 0 0 0 0))
           (Some (replace_time date 23 59 59 999999)) =
           ([''Error fetching appointments: '' @ msg], [])"
    and "get_busy_time_slots w date = ([''Error fetching appointments: '' @ msg], [])"
  using assms by (simp_all add: get_busy_time_slots_def get_existing_appointments_def)

lemma get_busy_time_slots_empty:
  "get_busy_time_slots (w\<lparr>scheduled_events := \<lambda>s e. Collection []\<rparr>) date = ([], [])"
  by (simp add: get_busy_time_slots_def get_existing_appointments_def)

lemma visits_step:
  assumes "c \<le> e"
  shows "visits c e = Suc (visits (c + timedelta_days 1) e)"
proof (cases "c + 86400000000 \<le> e")
  case True
  have "(e - c) div 86400000000 = (e - (c + 86400000000)) div 86400000000 + 1"
    by (simp add: algebra_simps div_add_self2 flip: div_add_self2)
  moreover have "0 \<le> (e - (c + 86400000000)) div 86400000000" using True by simp
  ultimately show ?thesis using True assms by (simp add: visits_def timedelta_days_def)
next
  case False
  then have "(e - c) div 86400000000 = 0" using assms by simp
  then show ?thesis using False assms by (simp add: visits_def timedelta_days_def)
qed

lemma dt_date_plus_days: "dt_date (d + timedelta_days k) = dt_date d + k"
  by (simp add: dt_date_def timedelta_days_def)

lemma dt_date_in_window:
  assumes "combine D s \<le> x" "x < combine D e" "0 \<le> s" "e \<le> 61200000000"
  shows "dt_date x = D"
proof -
  define r where "r = x - D * 86400000000"
  have r: "0 \<le> r" "r < 86400000000" using assms by (auto simp: r_def combine_def)
  have "x = D * 86400000000 + r" by (simp add: r_def)
  then have "dt_date x = (D * 86400000000 + r) div 86400000000" by (simp add: dt_date_def)
  also have "\<dots> = D" using r by (simp add: div_pos_pos_trivial)
  finally show ?thesis .
qed

lemma day_result_date:
  assumes "get_available_slots w date t = Some (Inr info)" "get_slots info = Some sl"
  shows "info_date info = Some (dt_date date)"
proof (cases "APPOINTMENT_TYPES t")
  case None
  from get_available_slots_invalid [OF this, of w date] assms show ?thesis by simp
next
  case (Some ty)
  show ?thesis
  proof (cases "is_working_day date")
    case False
    from get_available_slots_not_working [OF Some this, of w] assms show ?thesis by simp
  next
    case True
    show ?thesis
      by (rule get_available_slots_working [OF assms(1) True Some]) simp
  qed
qed

lemma day_result_sorted:
  assumes "get_available_slots w date t = Some (Inr info)" "get_slots info = Some sl"
  shows "sorted (map slot_datetime sl) \<and> (\<forall>x\<in>set sl. dt_date (slot_datetime x) = dt_date date)"
proof (cases "sl = []")
  case True
  then show ?thesis by simp
next
  case False
  show ?thesis
  proof (rule get_slots_cases [OF assms False])
    fix ty hours s e all_slots
    assume ty: "APPOINTMENT_TYPES t = Some ty" and wd: "is_working_day date"
      and h: "get_working_hours (lower (strftime_A date)) = Some hours"
      and ps: "parse_time_string (wh_start hours) = Inr s"
      and pe: "parse_time_string (wh_end hours) = Inr e"
      and gen: "generate_time_slots s e date slot_interval = Some all_slots"
      and fs: "filter_slots all_slots (at_duration ty) (snd (get_busy_time_slots w date)) e = Inr sl"
    from filter_slots_Inr [OF fs] obtain P where m: "map slot_datetime sl = filter P all_slots"
      by blast
    from generate_time_slots_bounds [OF gen] have "sorted all_slots" by simp
    then have "sorted (filter P all_slots)" by (rule sorted_wrt_filter)
    then have 1: "sorted (map slot_datetime sl)" unfolding m .
    from working_window_bounds [OF wd h ps pe] have b: "0 \<le> s" "e \<le> 61200000000" by simp_all
    have d: "get_appointment_duration t = Some (at_duration ty)"
      using ty by (simp add: get_appointment_duration_def)
    have 2: "\<forall>x\<in>set sl. dt_date (slot_datetime x) = dt_date date"
    proof
      fix x assume x: "x \<in> set sl"
      note f = returned_slot_facts [OF assms x d h ps pe]
      from dt_date_in_window [OF f(3,4) b] show "dt_date (slot_datetime x) = dt_date date" .
    qed
    from 1 2 show ?thesis by simp
  qed
qed

lemma visits_30: "visits sf (sf + timedelta_days 30) = 31"
  by (simp add: visits_def timedelta_days_def)

lemma filter_head:
  assumes "filter P xs = y # ys"
  obtains k where "k < length xs" "xs ! k = y" "P y" "\<forall>j<k. \<not> P (xs ! j)"
proof -
  from assms obtain us vs where xs: "xs = us @ y # vs" and no: "\<forall>u\<in>set us. \<not> P u" and y: "P y"
    by (auto simp: filter_eq_Cons_iff)
  have "length us < length xs" "xs ! length us = y" by (simp_all add: xs)
  moreover have "\<forall>j<length us. \<not> P (xs ! j)" using no by (simp add: xs nth_append)
  ultimately show ?thesis using y that by blast
qed

lemma day_info_eq:
  assumes "returns_result (get_available_slots w (start + timedelta_days (int k)) t)"
  shows "get_available_slots w (start + timedelta_days (int k)) t = Some (Inr (day_info w start t k))"
  using assms by (auto simp: returns_result_def day_info_def split: option.splits sum.splits)

lemma is_slot_available_returns:
  assumes "\<forall>b\<in>set bl. well_formed b"
  shows "\<exists>r. is_slot_available s d bl = Inr r"
proof -
  have p: "parses x \<Longrightarrow> \<exists>v. fromisoformat x = Inr v" for x by (cases x) simp_all
  from assms show ?thesis
  proof (induction bl)
    case Nil
    show ?case by auto
  next
    case (Cons b bl)
    then obtain bs be where "fromisoformat (busy_start b) = Inr bs" "fromisoformat (busy_end b) = Inr be"
      using p [of "busy_start b"] p [of "busy_end b"] by (auto simp: well_formed_def)
    with Cons show ?case by (auto simp: Let_def)
  qed
qed

lemma filter_slots_returns:
  assumes "\<forall>b\<in>set bl. well_formed b"
  shows "\<exists>sl. filter_slots all d bl e = Inr sl"
proof (induction all)
  case Nil
  show ?case by simp
next
  case (Cons s all)
  from is_slot_available_returns [OF assms, of s d] obtain r where "is_slot_available s d bl = Inr r" ..
  with Cons show ?case by (auto simp: Let_def)
qed

lemma get_available_slots_returns:
  assumes "\<forall>b\<in>set (snd (get_busy_time_slots w date)). well_formed b"
  shows "returns_result (get_available_slots w date t)"
proof (cases "APPOINTMENT_TYPES t")
  case None
  from get_available_slots_invalid [OF this, of w date] show ?thesis
    by (simp add: returns_result_def)
next
  case (Some ty)
  show ?thesis
  proof (cases "is_working_day date")
    case False
    from get_available_slots_not_working [OF Some this, of w] show ?thesis
      by (simp add: returns_result_def)
  next
    case True
    show ?thesis
    proof (rule working_window [OF True])
      fix hours s e
      assume h: "get_working_hours (lower (strftime_A date)) = Some hours"
        "parse_time_string (wh_start hours) = Inr s" "parse_time_string (wh_end hours) = Inr e"
      have "0 < slot_interval" by (simp add: slot_interval_def)
      from generate_loop_returns [OF this, of "combine (dt_date date) s" "combine (dt_date date) e" "[]"]
      obtain all_slots where g: "generate_time_slots s e date slot_interval = Some all_slots"
        by (auto simp: generate_time_slots_def)
      from filter_slots_returns [OF assms, of all_slots "at_duration ty" e]
      obtain sl where f: "filter_slots all_slots (at_duration ty) (snd (get_busy_time_slots w date)) e = Inr sl" ..
      from catalog_durations [OF Some] have "at_duration ty \<noteq> 0" by auto
      with True Some h g f show ?thesis
        by (simp add: get_available_slots_def get_appointment_duration_def returns_result_def)
    qed
  qed
qed

lemma busy_world_busy:
  "snd (get_busy_time_slots busy_world date) = [busy_of_monday]"
  by (simp add: get_busy_time_slots_def get_existing_appointments_def busy_world_def
        to_appointment_def busy_event_def busy_of_monday_def)

lemma busy_world_returns: "returns_result (get_available_slots busy_world date t)"
  by (rule get_available_slots_returns)
     (simp add: busy_world_busy well_formed_def busy_of_monday_def)

lemma busy_world_day1:
  "day_info busy_world new_years_eve ''general_consultation'' 1 = monday_info"
  by code_simp

lemma strptime_Ymd_error: "strptime_Ymd s = Inl e \<Longrightarrow> e = ValueError"
  by (auto simp: strptime_Ymd_def split: option.splits prod.splits if_splits)

lemma strptime_HM_error: "strptime_HM s = Inl e \<Longrightarrow> e = ValueError"
  by (auto simp: strptime_HM_def split: option.splits prod.splits if_splits)

lemma check_required_find:
  "check_required fs data = find (\<lambda>field. data field = None \<or> data field = Some []) fs"
  by (induction fs) auto

lemma check_required_None:
  assumes "check_required required_fields data = None"
  shows "\<exists>ty d tm n em. data ''appointment_type'' = Some ty \<and> data ''date'' = Some d \<and>
           data ''time'' = Some tm \<and> data ''patient_name'' = Some n \<and>
           data ''patient_email'' = Some em \<and> ty \<noteq> [] \<and> d \<noteq> [] \<and> tm \<noteq> [] \<and> n \<noteq> [] \<and> em \<noteq> []"
  using assms by (auto simp: required_fields_def split: if_splits)

lemma validate_refines_spec:
  "validate_appointment_data data = Inr (spec_validate data)"
proof (cases "check_required required_fields data")
  case (Some field)
  then have "spec_required data = Some (MissingRequiredField field)"
    by (simp add: spec_required_def check_required_find required_fields_def)
  with Some show ?thesis
    by (simp add: validate_appointment_data_def spec_validate_def spec_checks_def)
next
  case None
  then have req: "spec_required data = None"
    by (simp add: spec_required_def check_required_find required_fields_def)
  from check_required_None [OF None] obtain ty d tm n em where
    f: "data ''appointment_type'' = Some ty" "data ''date'' = Some d" "data ''time'' = Some tm"
       "data ''patient_email'' = Some em" by blast
  show ?thesis
  proof (cases "APPOINTMENT_TYPES ty")
    case None': None
    with None f req show ?thesis
      by (simp add: validate_appointment_data_def spec_validate_def spec_checks_def
            spec_type_known_def)
  next
    case ty: (Some a)
    show ?thesis
    proof (cases "strptime_Ymd d")
      case (Inl e)
      with strptime_Ymd_error [OF Inl] None f req ty show ?thesis
        by (simp add: validate_appointment_data_def spec_validate_def spec_checks_def
              spec_type_known_def spec_date_parses_def)
    next
      case date: (Inr day)
      show ?thesis
      proof (cases "strptime_HM tm")
        case (Inl e)
        with strptime_HM_error [OF Inl] None f req ty date show ?thesis
          by (simp add: validate_appointment_data_def spec_validate_def spec_checks_def
                spec_type_known_def spec_date_parses_def spec_time_parses_def)
      next
        case (Inr t)
        with None f req ty date show ?thesis
          by (simp add: validate_appointment_data_def spec_validate_def spec_checks_def
                spec_type_known_def spec_date_parses_def spec_time_parses_def
                spec_email_has_at_def)
      qed
    qed
  qed
qed

lemma create_appointment_invalid:
  assumes "first_violation spec_checks data = Some e"
  shows "create_appointment w data g = (Some (Inr (Failure (Some (error_message e)))), g)"
  using assms
  by (simp add: create_appointment_def validate_refines_spec spec_validate_def)

lemma valid_request_checks:
  assumes "validate_appointment_data data = Inr (True, None)"
  shows "spec_required data = None" "spec_type_known data = None" "spec_date_parses data = None"
    "spec_time_parses data = None" "spec_email_has_at data = None"
proof -
  from assms have "spec_validate data = (True, None)" by (simp add: validate_refines_spec)
  then have "first_violation spec_checks data = None"
    by (simp add: spec_validate_def split: option.splits)
  then show "spec_required data = None" "spec_type_known data = None" "spec_date_parses data = None"
    "spec_time_parses data = None" "spec_email_has_at data = None"
    by (simp_all add: spec_checks_def split: option.splits)
qed

lemma check_slot_availability_listed:
  assumes "strptime_Ymd date_str = Inr day" "strptime_HM time_str = Inr tm"
    and "get_available_slots w day ty = Some (Inr info)" "get_slots info = Some sl"
    and "time_str \<in> set (map slot_start_time sl)"
  shows "check_slot_availability w ty date_str time_str = Some (Inr (True, ''Slot is available''))"
proof -
  from assms(5) have ne: "sl \<noteq> []" by auto
  from assms(5) have ex: "list_ex (\<lambda>slot. slot_start_time slot = time_str) sl"
    by (auto simp: list_ex_iff)
  from assms(1-4) ne ex show ?thesis
    by (cases info) (simp_all add: check_slot_availability_def)
qed

lemma booking_request_valid:
  "validate_appointment_data booking_request = Inr (True, None)"
  by code_simp

lemma booking_request_day: "strptime_Ymd ''2024-01-01'' = Inr monday"
  by code_simp

lemma busy_world_monday_info:
  "get_available_slots busy_world monday ''general_consultation'' = Some (Inr monday_info)"
  unfolding monday_info_def by (rule busy_world_monday)

lemma add_timedelta_in_range:
  assumes "datetime_min \<le> dt + td" "dt + td \<le> datetime_max"
  shows "add_timedelta dt td = Inr (dt + td)"
  using assms by (simp add: add_timedelta_def)

lemma range_loop_invalid:
  assumes "APPOINTMENT_TYPES t = None"
    and "datetime_min \<le> c" and "e + timedelta_days 1 \<le> datetime_max"
  shows "range_loop w c e t rs = Some (Inr rs)"
  using assms
proof (induction w c e t rs rule: range_loop.induct)
  case (1 w c e t rs)
  show ?case
  proof (cases "c \<le> e")
    case False
    then show ?thesis by (subst range_loop.simps) simp
  next
    case True
    have g: "get_available_slots w c t = Some (Inr (ErrorInfo (''Invalid appointment type: '' @ t)))"
      by (rule get_available_slots_invalid [OF "1.prems"(1)])
    have a: "add_timedelta c (timedelta_days 1) = Inr (c + timedelta_days 1)"
      using True "1.prems"(2,3)
      by (intro add_timedelta_in_range) (simp_all add: timedelta_days_def)
    have "datetime_min \<le> c + timedelta_days 1"
      using "1.prems"(2) by (simp add: timedelta_days_def)
    from "1.IH" [OF True g refl a "1.prems"(1) this "1.prems"(3)]
    have "range_loop w (c + timedelta_days 1) e t rs = Some (Inr rs)"
      by (simp add: truthy_slots_def)
    then show ?thesis using True g a
      by (subst range_loop.simps) (simp add: truthy_slots_def)
  qed
qed

lemma range_loop_returns:
  assumes "length infos = visits c e"
    and "\<forall>k<length infos. get_available_slots w (c + timedelta_days (int k)) t = Some (Inr (infos ! k))"
    and "datetime_min \<le> c" and "e + timedelta_days 1 \<le> datetime_max"
  shows "range_loop w c e t acc = Some (Inr (acc @ filter (\<lambda>i. truthy_slots (get_slots i)) infos))"
  using assms
proof (induction w c e t acc arbitrary: infos rule: range_loop.induct)
  case (1 w c e t acc)
  show ?case
  proof (cases "c \<le> e")
    case False
    with "1.prems"(1) have "infos = []" by (simp add: visits_def)
    with False show ?thesis by (subst range_loop.simps) simp
  next
    case True
    from "1.prems"(1) visits_step [OF True] obtain i0 rest where infos: "infos = i0 # rest"
      by (cases infos) auto
    from "1.prems"(2) infos have g: "get_available_slots w c t = Some (Inr i0)"
      by (auto simp: timedelta_days_def dest: spec [of _ 0])
    have a: "add_timedelta c (timedelta_days 1) = Inr (c + timedelta_days 1)"
      using True "1.prems"(3,4)
      by (intro add_timedelta_in_range) (simp_all add: timedelta_days_def)
    have mn: "datetime_min \<le> c + timedelta_days 1"
      using "1.prems"(3) by (simp add: timedelta_days_def)
    have len: "length rest = visits (c + timedelta_days 1) e"
      using "1.prems"(1) visits_step [OF True] infos by simp
    have nth: "\<forall>k<length rest. get_available_slots w (c + timedelta_days 1 + timedelta_days (int k)) t =
          Some (Inr (rest ! k))"
    proof (intro allI impI)
      fix k assume "k < length rest"
      then have "Suc k < length infos" using infos by simp
      with "1.prems"(2) have "get_available_slots w (c + timedelta_days (int (Suc k))) t =
          Some (Inr (infos ! Suc k))" by blast
      then have a: "get_available_slots w (c + timedelta_days (int (Suc k))) t =
          Some (Inr (rest ! k))" using infos by simp
      have b: "c + timedelta_days 1 + timedelta_days (int k) = c + timedelta_days (int (Suc k))"
        by (simp add: timedelta_days_def algebra_simps)
      show "get_available_slots w (c + timedelta_days 1 + timedelta_days (int k)) t =
          Some (Inr (rest ! k))" unfolding b by (rule a)
    qed
    from "1.IH" [OF True g refl a len nth mn "1.prems"(4)]
    have "range_loop w (c + timedelta_days 1) e t
            (if truthy_slots (get_slots i0) then acc @ [i0] else acc) =
          Some (Inr ((if truthy_slots (get_slots i0) then acc @ [i0] else acc) @
                     filter (\<lambda>i. truthy_slots (get_slots i)) rest))" .
    then show ?thesis using True g a infos
      by (subst range_loop.simps) simp
  qed
qed

lemma horizon_in_range:
  assumes "datetime_min \<le> sf" "sf + timedelta_days 31 \<le> datetime_max"
  shows "add_timedelta sf (timedelta_days 30) = Inr (sf + timedelta_days 30)"
    and "sf + timedelta_days 30 + timedelta_days 1 \<le> datetime_max"
  using assms by (simp_all add: add_timedelta_def timedelta_days_def)

lemma next_of_range:
  assumes "add_timedelta sf (timedelta_days 30) = Inr end_date"
    and "sf = (case start_from of None \<Rightarrow> now w | Some d \<Rightarrow> d)"
    and "get_available_slots_range w sf end_date t = Some (Inr rs)"
  shows "rs = [] \<Longrightarrow> get_next_available_slot w t start_from =
           Some (Inr (NotFound (''No available slots found in the next 30 days for '' @ t)))"
    and "rs = first # days \<Longrightarrow> get_slots first = Some (s # rest) \<Longrightarrow> info_date first = Some d \<Longrightarrow>
           \<exists>name dur. get_next_available_slot w t start_from = Some (Inr (Found d s name dur))"
proof -
  assume "rs = []"
  with assms show "get_next_available_slot w t start_from =
           Some (Inr (NotFound (''No available slots found in the next 30 days for '' @ t)))"
    by (simp add: get_next_available_slot_def Let_def)
next
  assume "rs = first # days" "get_slots first = Some (s # rest)" "info_date first = Some d"
  with assms show "\<exists>name dur. get_next_available_slot w t start_from = Some (Inr (Found d s name dur))"
    by (cases first) (simp_all add: get_next_available_slot_def Let_def)
qed

lemma next_overflow:
  assumes "sf = (case start_from of None \<Rightarrow> now w | Some d \<Rightarrow> d)"
    and "datetime_max < sf + timedelta_days 30"
  shows "get_next_available_slot w t start_from = Some (Inl OverflowError)"
  using assms by (simp add: get_next_available_slot_def add_timedelta_def Let_def)

lemma simulate_booking_Success:
  assumes "simulate_booking data info start g = (Inr (Success booking_id details msg steps), g')"
  shows "booking_id = draws g (drawn g) \<and> g' = g\<lparr>drawn := Suc (drawn g)\<rparr>"
proof (cases info)
  case None
  with assms show ?thesis by (simp add: simulate_booking_def)
next
  case (Some a)
  show ?thesis
  proof (cases "\<exists>ds ts n e. data ''date'' = Some ds \<and> data ''time'' = Some ts \<and>
                  data ''patient_name'' = Some n \<and> data ''patient_email'' = Some e")
    case True
    then obtain ds ts n e where "data ''date'' = Some ds" "data ''time'' = Some ts"
      "data ''patient_name'' = Some n" "data ''patient_email'' = Some e" by blast
    with assms Some show ?thesis by (simp add: simulate_booking_def uuid4_def Let_def)
  next
    case False
    then have "(case (data ''date'', data ''time'', data ''patient_name'', data ''patient_email'') of
                  (Some ds, Some ts, Some n, Some e) \<Rightarrow> (X ds ts n e :: (py_error + booking_result) \<times> rng)
                | _ \<Rightarrow> (Inl KeyError, Y)) = (Inl KeyError, Y)" for X Y
      by (cases "data ''date''"; cases "data ''time''"; cases "data ''patient_name''";
          cases "data ''patient_email''") simp_all
    with assms Some show ?thesis by (simp add: simulate_booking_def uuid4_def Let_def)
  qed
qed


lemma create_appointment_Success:
  assumes "create_appointment w data g = (Some (Inr (Success booking_id details msg steps)), g')"
  shows "booking_id = draws g (drawn g) \<and> g' = g\<lparr>drawn := Suc (drawn g)\<rparr>"
proof (cases "validate_appointment_data data")
  case (Inl e)
  with assms show ?thesis by (simp add: create_appointment_def)
next
  case (Inr p)
  obtain v m where p: "p = (v, m)" by (cases p)
  show ?thesis
  proof (cases "v = True")
    case False
    with assms Inr p show ?thesis by (simp add: create_appointment_def)
  next
    case True
    with Inr p have valid: "validate_appointment_data data = Inr (True, m)" by simp
    show ?thesis
    proof (cases "data ''appointment_type''")
      case None
      with assms valid show ?thesis by (simp add: create_appointment_def)
    next
      case f1: (Some ty)
      show ?thesis
      proof (cases "data ''date''")
        case None
        with assms valid f1 show ?thesis by (simp add: create_appointment_def)
      next
        case f2: (Some ds)
        show ?thesis
        proof (cases "data ''time''")
          case None
          with assms valid f1 f2 show ?thesis by (simp add: create_appointment_def)
        next
          case f3: (Some ts)
          note f = f1 f2 f3
          show ?thesis
          proof (cases "check_slot_availability w ty ds ts")
            case None
            with assms valid f show ?thesis by (simp add: create_appointment_def)
          next
            case (Some c)
            show ?thesis
            proof (cases c)
              case (Inl e)
              with assms valid f Some show ?thesis by (simp add: create_appointment_def)
            next
              case c: (Inr q)
              obtain av message where q: "q = (av, message)" by (cases q)
              show ?thesis
              proof (cases "av = True")
                case False
                with assms valid f Some c q show ?thesis by (simp add: create_appointment_def)
              next
                case av: True
                show ?thesis
                proof (cases "strptime_Ymd ds")
                  case (Inl e)
                  with assms valid f Some c q av show ?thesis
                    by (simp add: create_appointment_def)
                next
                  case d: (Inr day)
                  show ?thesis
                  proof (cases "strptime_HM ts")
                    case (Inl e)
                    with assms valid f Some c q av d show ?thesis
                      by (simp add: create_appointment_def)
                  next
                    case t: (Inr tm)
                    obtain r g'' where sb: "simulate_booking data (get_appointment_info ty)
                        (combine (dt_date day) tm) g = (r, g'')"
                      by (cases "simulate_booking data (get_appointment_info ty)
                        (combine (dt_date day) tm) g")
                    with assms valid f Some c q av d t
                    have "r = Inr (Success booking_id details msg steps)" "g'' = g'"
                      by (simp_all add: create_appointment_def)
                    with sb have "simulate_booking data (get_appointment_info ty)
                        (combine (dt_date day) tm) g =
                        (Inr (Success booking_id details msg steps), g')" by simp
                    then show ?thesis by (rule simulate_booking_Success)
                  qed
                qed
              qed
            qed
          qed
        qed
      qed
    qed
  qed
qed

lemma successive_bookings_distinct_ids:
  assumes "inj (draws g)"
    and "create_appointment w1 data1 g = (Some (Inr (Success id1 details1 msg1 steps1)), g1)"
    and "create_appointment w2 data2 g1 = (Some (Inr (Success id2 details2 msg2 steps2)), g2)"
  shows "id1 \<noteq> id2"
proof -
  from create_appointment_Success [OF assms(2)]
  have 1: "id1 = draws g (drawn g)" "g1 = g\<lparr>drawn := Suc (drawn g)\<rparr>" by simp_all
  from create_appointment_Success [OF assms(3)]
  have 2: "id2 = draws g1 (drawn g1)" by simp
  have "id2 = draws g (Suc (drawn g))" unfolding 2 1(2) by simp
  moreover have "draws g (drawn g) \<noteq> draws g (Suc (drawn g))"
    by (simp add: inj_eq [OF assms(1)])
  ultimately show ?thesis unfolding 1(1) by simp
qed

section \<open>The claims\<close>

text \<open>
  C1.  Whatever the date, the appointment type and the busy intervals fetched for the
  date: when \<open>get_available_slots\<close> returns, every slot of its \<open>available_slots\<close>
  fails the half-open overlap test against every busy interval \<open>b\<close>, that is, not
  (\<open>slot.start < b.end\<close> and \<open>slot.start + duration > b.start\<close>).  The busy
  timestamps enter the test with their wall-clock value \<open>naive\<close>: the offset they
  carry is dropped, not applied.  Both timestamps of every busy interval parse, since
  a timestamp that does not parse makes the call raise.
\<close>

theorem no_returned_slot_overlaps_busy:
  assumes "get_available_slots w date t = Some (Inr info)"
    and "get_slots info = Some sl" and "slot \<in> set sl"
    and "get_appointment_duration t = Some d"
    and "b \<in> set (snd (get_busy_time_slots w date))"
  shows "\<exists>bs be. fromisoformat (busy_start b) = Inr bs \<and> fromisoformat (busy_end b) = Inr be \<and>
           \<not> (slot_datetime slot < naive be \<and> slot_datetime slot + timedelta_minutes d > naive bs)"
proof -
  from assms(3) have ne: "sl \<noteq> []" by auto
  have "is_slot_available (slot_datetime slot) d (snd (get_busy_time_slots w date)) = Inr True"
  proof (rule get_slots_cases [OF assms(1,2) ne])
    fix ty hours s e all_slots
    assume "get_working_hours (lower (strftime_A date)) = Some hours"
      and "parse_time_string (wh_start hours) = Inr s"
      and "parse_time_string (wh_end hours) = Inr e"
    from returned_slot_facts(1) [OF assms(1-4) this] show ?thesis .
  qed
  from is_slot_available_True [OF this assms(5)] show ?thesis .
qed

theorem no_returned_slot_overlaps_busy_witness:
  "get_available_slots busy_world monday ''general_consultation'' =
     Some (Inr (DayInfo 738886 ''Monday'' ''General Consultation'' 30 [first_slot_of_monday] 1)) \<and>
   get_slots (DayInfo 738886 ''Monday'' ''General Consultation'' 30 [first_slot_of_monday] 1) =
     Some [first_slot_of_monday] \<and>
   first_slot_of_monday \<in> set [first_slot_of_monday] \<and>
   get_appointment_duration ''general_consultation'' = Some 30 \<and>
   busy_of_monday \<in> set (snd (get_busy_time_slots busy_world monday)) \<and>
   (\<exists>bs be. fromisoformat (busy_start busy_of_monday) = Inr bs \<and>
      fromisoformat (busy_end busy_of_monday) = Inr be \<and>
      \<not> (slot_datetime first_slot_of_monday < naive be \<and>
         slot_datetime first_slot_of_monday + timedelta_minutes 30 > naive bs))"
proof -
  have h1: "get_available_slots busy_world monday ''general_consultation'' =
     Some (Inr (DayInfo 738886 ''Monday'' ''General Consultation'' 30 [first_slot_of_monday] 1))"
    by (rule busy_world_monday)
  have h2: "get_slots (DayInfo 738886 ''Monday'' ''General Consultation'' 30 [first_slot_of_monday] 1) =
     Some [first_slot_of_monday]" by simp
  have h3: "first_slot_of_monday \<in> set [first_slot_of_monday]" by simp
  have h4: "get_appointment_duration ''general_consultation'' = Some 30" by code_simp
  have h5: "busy_of_monday \<in> set (snd (get_busy_time_slots busy_world monday))"
    by (simp add: busy_world_monday_busy)
  from no_returned_slot_overlaps_busy [OF h1 h2 h3 h4 h5] h1 h2 h3 h4 h5
  show ?thesis by blast
qed

text \<open>
  C2.  On a day whose working window is \<open>[s, e)\<close> and for an appointment type of
  duration \<open>d\<close>, every slot that \<open>get_available_slots\<close> returns has
  \<open>s \<le> slot.start\<close> and \<open>slot.start + d \<le> e\<close>, on the date asked for.  So a
  candidate whose end runs past the end of the working hours is not returned,
  whatever the busy intervals are.
\<close>

theorem slots_within_working_hours:
  assumes "get_available_slots w date t = Some (Inr info)"
    and "get_working_hours (lower (strftime_A date)) = Some hours"
    and "parse_time_string (wh_start hours) = Inr s"
    and "parse_time_string (wh_end hours) = Inr e"
    and "get_appointment_duration t = Some d"
    and "get_slots info = Some sl" and "slot \<in> set sl"
  shows "combine (dt_date date) s \<le> slot_datetime slot \<and>
         slot_datetime slot + timedelta_minutes d \<le> combine (dt_date date) e"
proof -
  note facts = returned_slot_facts [OF assms(1,6,7,5,2,3,4)]
  from working_window_bounds [OF facts(5) assms(2,3,4)]
  have bounds: "0 \<le> s" "e \<le> 61200000000" by simp_all
  from assms(5) obtain ty where ty: "APPOINTMENT_TYPES t = Some ty" and d: "d = at_duration ty"
    by (auto simp: get_appointment_duration_def split: option.splits)
  from catalog_durations [OF ty] have dur: "0 \<le> d" "d \<le> 60" unfolding d by auto
  from no_wrap [OF facts(3,4) bounds dur facts(2)] facts(3) show ?thesis by simp
qed

theorem slots_within_working_hours_witness:
  "get_available_slots busy_world monday ''general_consultation'' =
     Some (Inr (DayInfo 738886 ''Monday'' ''General Consultation'' 30 [first_slot_of_monday] 1)) \<and>
   get_working_hours (lower (strftime_A monday)) =
     Some \<lparr>wh_start = Some ''09:00'', wh_end = Some ''17:00'', wh_available = True\<rparr> \<and>
   parse_time_string (Some ''09:00'') = Inr (mk_time 9 0 0 0) \<and>
   parse_time_string (Some ''17:00'') = Inr (mk_time 17 0 0 0) \<and>
   get_appointment_duration ''general_consultation'' = Some 30 \<and>
   combine (dt_date monday) (mk_time 9 0 0 0) \<le> slot_datetime first_slot_of_monday \<and>
   slot_datetime first_slot_of_monday + timedelta_minutes 30 \<le>
     combine (dt_date monday) (mk_time 17 0 0 0)"
proof -
  let ?hours = "\<lparr>wh_start = Some ''09:00'', wh_end = Some ''17:00'', wh_available = True\<rparr>"
  have h1: "get_available_slots busy_world monday ''general_consultation'' =
     Some (Inr (DayInfo 738886 ''Monday'' ''General Consultation'' 30 [first_slot_of_monday] 1))"
    by (rule busy_world_monday)
  have h2: "get_working_hours (lower (strftime_A monday)) = Some ?hours"
    by (rule monday_hours)
  have h3: "parse_time_string (wh_start ?hours) = Inr (mk_time 9 0 0 0)"
    by (simp add: parse_0900 mk_time_def)
  have h4: "parse_time_string (wh_end ?hours) = Inr (mk_time 17 0 0 0)"
    by (simp add: parse_1700 mk_time_def)
  have h5: "get_appointment_duration ''general_consultation'' = Some 30" by code_simp
  have h6: "get_slots (DayInfo 738886 ''Monday'' ''General Consultation'' 30 [first_slot_of_monday] 1) =
     Some [first_slot_of_monday]" by simp
  have h7: "first_slot_of_monday \<in> set [first_slot_of_monday]" by simp
  from slots_within_working_hours [OF h1 h2 h3 h4 h5 h6 h7] h1 h2 h3 h4 h5
  show ?thesis by simp
qed

text \<open>
  C4.  On a date whose weekday is not a working day and for an appointment type of the
  catalog, \<open>get_available_slots\<close> returns, and returns the dictionary of the day
  that is not a working day: it has no \<open>error\<close> key, its \<open>available_slots\<close>
  is the empty list and its message is \<open>Not a working day\<close> (how the program says
  that \<open>isWorkingDay\<close> is false).
\<close>

theorem non_working_day_empty_result:
  assumes "\<not> is_working_day date" and "APPOINTMENT_TYPES t = Some ty"
  shows "get_available_slots w date t =
           Some (Inr (NotWorkingInfo (dt_date date) t (at_duration ty) [] ''Not a working day'')) \<and>
         \<not> has_error (NotWorkingInfo (dt_date date) t (at_duration ty) [] ''Not a working day'') \<and>
         get_slots (NotWorkingInfo (dt_date date) t (at_duration ty) [] ''Not a working day'') = Some []"
  using get_available_slots_not_working [OF assms(2,1), of w] by simp

theorem non_working_day_empty_result_witness:
  "\<not> is_working_day sunday \<and>
   APPOINTMENT_TYPES ''follow_up'' =
     Some \<lparr>at_name = ''Follow-up'', at_duration = 15,
           at_description = ''Follow-up appointment for previous consultation''\<rparr> \<and>
   get_available_slots busy_world sunday ''follow_up'' =
     Some (Inr (NotWorkingInfo 738892 ''follow_up'' 15 [] ''Not a working day''))"
proof -
  let ?ty = "\<lparr>at_name = ''Follow-up'', at_duration = 15,
           at_description = ''Follow-up appointment for previous consultation''\<rparr>"
  have h1: "\<not> is_working_day sunday" by code_simp
  have h2: "APPOINTMENT_TYPES ''follow_up'' = Some ?ty" by code_simp
  have d: "dt_date sunday = 738892" by code_simp
  from non_working_day_empty_result [OF h1 h2, of busy_world] h1 h2 d show ?thesis by simp
qed

text \<open>
  C10, as stated, fails.  The claim is made for every instant from which the search
  may start.  From 9999-12-15 at 09:00 the horizon of 30 days lies after
  \<open>datetime.max\<close> and \<open>get_next_available_slot\<close> raises \<open>OverflowError\<close>
  instead of returning \<open>found = False\<close>.
\<close>

theorem invalid_type_overflow_counterexample:
  "APPOINTMENT_TYPES ''checkup'' = None \<and>
   get_next_available_slot free_world ''checkup'' (Some december_9999) =
     Some (Inl OverflowError)"
  by code_simp

text \<open>
  C10, amended.  For an appointment type that is not in the catalog, and a start of
  the search (a datetime, so not before \<open>datetime.min\<close>) from which 31 days can be
  added within \<open>datetime.max\<close>,
  \<open>get_next_available_slot\<close> returns \<open>found = False\<close> with the message that no
  slot was found in the next 30 days, not the invalid-type error: every day's result
  is the error dictionary, which has no \<open>available_slots\<close> key, so
  \<open>get_available_slots_range\<close> drops every day of the window and returns the
  empty list.
\<close>

theorem invalid_type_next_slot_not_found:
  assumes "APPOINTMENT_TYPES t = None"
    and "sf = (case start_from of None \<Rightarrow> now w | Some d \<Rightarrow> d)"
    and "datetime_min \<le> sf" and "sf + timedelta_days 31 \<le> datetime_max"
  shows "get_next_available_slot w t start_from =
           Some (Inr (NotFound (''No available slots found in the next 30 days for '' @ t))) \<and>
         (\<forall>day. get_available_slots w day t =
                  Some (Inr (ErrorInfo (''Invalid appointment type: '' @ t)))) \<and>
         get_slots (ErrorInfo (''Invalid appointment type: '' @ t)) = None \<and>
         get_available_slots_range w sf (sf + timedelta_days 30) t = Some (Inr [])"
proof -
  note h = horizon_in_range [OF assms(3,4)]
  have r: "get_available_slots_range w sf (sf + timedelta_days 30) t = Some (Inr [])"
    unfolding get_available_slots_range_def
    by (rule range_loop_invalid [OF assms(1,3) h(2)])
  from next_of_range(1) [OF h(1) assms(2) r refl] r get_available_slots_invalid [OF assms(1), of w]
  show ?thesis by simp
qed

theorem invalid_type_next_slot_not_found_witness:
  "APPOINTMENT_TYPES ''checkup'' = None \<and>
   monday = (case Some monday of None \<Rightarrow> now free_world | Some d \<Rightarrow> d) \<and>
   datetime_min \<le> monday \<and> monday + timedelta_days 31 \<le> datetime_max \<and>
   get_next_available_slot free_world ''checkup'' (Some monday) =
     Some (Inr (NotFound ''No available slots found in the next 30 days for checkup''))"
proof -
  have h: "APPOINTMENT_TYPES ''checkup'' = None" by code_simp
  have s: "monday = (case Some monday of None \<Rightarrow> now free_world | Some d \<Rightarrow> d)" by simp
  have b: "datetime_min \<le> monday" "monday + timedelta_days 31 \<le> datetime_max"
    by code_simp+
  from invalid_type_next_slot_not_found [OF h s b] h s b
  show ?thesis by simp
qed

text \<open>
  C3, as stated, fails.  The claim is that when the calendar fetch fails the schedule
  layer hands an error to its caller and never turns the failure into an empty list
  of busy intervals.  On a Saturday for which the calendar answers with an error,
  \<open>get_busy_time_slots\<close> returns the empty list and \<open>get_available_slots\<close>
  returns every slot of the day, exactly as for a calendar without events.
\<close>

theorem fetch_error_surfaced_counterexample:
  "scheduled_events failing_world (replace_time saturday 0 0 0 0)
     (replace_time saturday 23 59 59 999999) = ErrorResponse ''503 Server Error'' \<and>
   get_busy_time_slots failing_world saturday =
     ([''Error fetching appointments: 503 Server Error''], []) \<and>
   returned_start_times (get_available_slots failing_world saturday ''specialist_consultation'') =
     [''10:00'', ''10:15'', ''10:30'', ''10:45'', ''11:00'', ''11:15'', ''11:30'', ''11:45'',
      ''12:00'', ''12:15'', ''12:30'', ''12:45'', ''13:00''] \<and>
   get_available_slots failing_world saturday ''specialist_consultation'' =
     get_available_slots free_world saturday ''specialist_consultation''"
  by code_simp

text \<open>
  C3, amended.  When the calendar answers the fetch for a date with an error,
  \<open>get_existing_appointments\<close> prints \<open>Error fetching appointments:\<close> and the
  message and returns the empty list, \<open>get_busy_time_slots\<close> returns the empty
  list, and \<open>get_available_slots\<close> returns what it returns for a calendar without
  events: the failure is printed and the day is treated as having no busy interval.
\<close>

theorem fetch_error_printed_then_no_busy:
  assumes "scheduled_events w (replace_time date 0 0 0 0) (replace_time date 23 59 59 999999) =
             ErrorResponse msg"
  shows "get_existing_appointments w (Some (replace_time date 0 0 0 0))
           (Some (replace_time date 23 59 59 999999)) =
           ([''Error fetching appointments: '' @ msg], []) \<and>
         get_busy_time_slots w date = ([''Error fetching appointments: '' @ msg], []) \<and>
         get_available_slots w date t =
           get_available_slots (w\<lparr>scheduled_events := \<lambda>s e. Collection []\<rparr>) date t"
proof -
  note e = get_busy_time_slots_error [OF assms]
  have "snd (get_busy_time_slots w date) =
        snd (get_busy_time_slots (w\<lparr>scheduled_events := \<lambda>s e. Collection []\<rparr>) date)"
    by (simp add: e(2) get_busy_time_slots_empty)
  from get_available_slots_same_busy [OF this] e show ?thesis by simp
qed

theorem fetch_error_printed_then_no_busy_witness:
  "scheduled_events failing_world (replace_time monday 0 0 0 0)
     (replace_time monday 23 59 59 999999) = ErrorResponse ''503 Server Error'' \<and>
   get_busy_time_slots failing_world monday =
     ([''Error fetching appointments: 503 Server Error''], []) \<and>
   get_available_slots failing_world monday ''follow_up'' =
     get_available_slots (failing_world\<lparr>scheduled_events := \<lambda>s e. Collection []\<rparr>) monday
       ''follow_up''"
proof -
  have h: "scheduled_events failing_world (replace_time monday 0 0 0 0)
     (replace_time monday 23 59 59 999999) = ErrorResponse ''503 Server Error''"
    by (simp add: failing_world_def)
  from fetch_error_printed_then_no_busy [OF h, of "''follow_up''"] h show ?thesis by simp
qed

text \<open>
  C5.  The claim is that \<open>get_available_slots_range\<close> visits the calendar days
  from the start date to the end date inclusive, as its docstring (\<open>Available slots
  for each date in range\<close>) and the inclusive comparison of its loop intend.  The
  loop compares instants and steps by 24 hours, so it misses the end date when the
  start is later in the day than the end: from Thursday 2024-01-04 at 10:00 to Saturday
  2024-01-06 at 09:00 it returns the results of Thursday and Friday, and Saturday, a
  day with thirteen free slots, is not visited.
\<close>

theorem range_misses_end_date:
  "thursday_10 \<le> saturday_9 \<and>
   returned_dates (get_available_slots_range free_world thursday_10 saturday_9
     ''specialist_consultation'') = [Some 738889, Some 738890] \<and>
   dt_date saturday_9 = 738891 \<and>
   returned_start_times (get_available_slots free_world saturday_9 ''specialist_consultation'') =
     [''10:00'', ''10:15'', ''10:30'', ''10:45'', ''11:00'', ''11:15'', ''11:30'', ''11:45'',
      ''12:00'', ''12:15'', ''12:30'', ''12:45'', ''13:00'']"
  by code_simp

text \<open>
  C6, as stated, fails.  The claim is made for every instant from which the search
  may start.  From 9999-12-15 at 09:00 the horizon of 30 days lies after
  \<open>datetime.max\<close>: \<open>start_from + timedelta(days=30)\<close> raises
  \<open>OverflowError\<close> and nothing is found, although the first day of the window, a
  Wednesday without appointments, has available slots.
\<close>

theorem next_slot_overflow_counterexample:
  "returned_start_times (get_available_slots free_world december_9999
     ''specialist_consultation'') \<noteq> [] \<and>
   get_next_available_slot free_world ''specialist_consultation'' (Some december_9999) =
     Some (Inl OverflowError)"
  by code_simp

text \<open>
  C6, amended.  Let the search start at an instant \<open>start\<close> (the given one, or the
  current time; a datetime, so not before \<open>datetime.min\<close>) from which 31 days can be
  added within \<open>datetime.max\<close>.
  \<open>get_next_available_slot\<close> searches the 31 days \<open>start\<close>, \<open>start\<close> + 1
  day, up to \<open>start\<close> + 30 days.  When \<open>get_available_slots\<close> returns for each of
  them (an exception in any of them is the exception of the search), the search
  returns.  If one of the days has an available slot it returns \<open>found = True\<close>
  with the date of a day \<open>k\<close> of the window and the first slot of that day, and the
  pair of that date and the slot's time of day is lexicographically at most the pair
  of every slot of every day of the window.  It returns \<open>found = False\<close>, with the
  message that no slot was found, exactly when no day of the window has an available
  slot.
\<close>

theorem next_slot_is_earliest:
  assumes sf: "sf = (case start_from of None \<Rightarrow> now w | Some d \<Rightarrow> d)"
    and lo: "datetime_min \<le> sf" and hi: "sf + timedelta_days 31 \<le> datetime_max"
    and days: "\<forall>k\<le>30. get_available_slots w (sf + timedelta_days (int k)) t = Some (Inr (info k))"
  shows "if \<exists>k\<le>30. truthy_slots (get_slots (info k))
         then \<exists>k slot rest name dur.
                k \<le> 30 \<and> get_slots (info k) = Some (slot # rest) \<and>
                get_next_available_slot w t start_from =
                  Some (Inr (Found (dt_date sf + int k) slot name dur)) \<and>
                dt_date (slot_datetime slot) = dt_date sf + int k \<and>
                (\<forall>k'\<le>30. \<forall>sl' s'. get_slots (info k') = Some sl' \<longrightarrow> s' \<in> set sl' \<longrightarrow>
                   dt_date sf + int k < dt_date (slot_datetime s') \<or>
                   dt_date sf + int k = dt_date (slot_datetime s') \<and>
                   dt_time (slot_datetime slot) \<le> dt_time (slot_datetime s'))
         else get_next_available_slot w t start_from =
                Some (Inr (NotFound (''No available slots found in the next 30 days for '' @ t)))"
proof -
  let ?P = "\<lambda>i. truthy_slots (get_slots i)"
  define infos where "infos = map info [0..<31]"
  have len: "length infos = visits sf (sf + timedelta_days 30)"
    by (simp add: infos_def visits_30)
  have nth: "\<forall>k<length infos. get_available_slots w (sf + timedelta_days (int k)) t =
               Some (Inr (infos ! k))"
    using days by (simp add: infos_def)
  have range: "get_available_slots_range w sf (sf + timedelta_days 30) t =
                 Some (Inr (filter ?P infos))"
    unfolding get_available_slots_range_def
    using range_loop_returns [OF len nth lo horizon_in_range(2) [OF lo hi], of "[]"] by simp
  note nxt = next_of_range [OF horizon_in_range(1) [OF lo hi] sf range]
  show ?thesis
  proof (cases "filter ?P infos")
    case Nil
    then have "\<forall>i\<in>set infos. \<not> ?P i" by (simp add: filter_empty_conv)
    then have "\<not> (\<exists>k\<le>30. ?P (info k))" by (auto simp: infos_def)
    with nxt(1) [OF Nil] show ?thesis by simp
  next
    case (Cons first rest_days)
    show ?thesis
    proof (rule filter_head [OF Cons])
      fix k assume k: "k < length infos" and first: "infos ! k = first" and P: "?P first"
        and before: "\<forall>j<k. \<not> ?P (infos ! j)"
      from k have k30: "k \<le> 30" by (simp add: infos_def)
      from first k have fi: "first = info k" by (simp add: infos_def)
      from P obtain slot rest where sl: "get_slots first = Some (slot # rest)"
        by (cases "get_slots first"; cases "the (get_slots first)")
           (auto simp: truthy_slots_def)
      from days k30 have dk: "get_available_slots w (sf + timedelta_days (int k)) t = Some (Inr first)"
        unfolding fi by simp
      have date: "info_date first = Some (dt_date sf + int k)"
        using day_result_date [OF dk sl] by (simp add: dt_date_plus_days)
      from nxt(2) [OF Cons sl date] obtain name dur where
        found: "get_next_available_slot w t start_from =
                  Some (Inr (Found (dt_date sf + int k) slot name dur))" by blast
      from day_result_sorted [OF dk sl]
      have srt: "sorted (map slot_datetime (slot # rest))"
        and dts: "\<forall>x\<in>set (slot # rest). dt_date (slot_datetime x) = dt_date sf + int k"
        by (simp_all add: dt_date_plus_days)
      have least: "\<forall>k'\<le>30. \<forall>sl' s'. get_slots (info k') = Some sl' \<longrightarrow> s' \<in> set sl' \<longrightarrow>
                   dt_date sf + int k < dt_date (slot_datetime s') \<or>
                   dt_date sf + int k = dt_date (slot_datetime s') \<and>
                   dt_time (slot_datetime slot) \<le> dt_time (slot_datetime s')"
      proof (intro allI impI)
        fix k' sl' s'
        assume k': "k' \<le> 30" and sl': "get_slots (info k') = Some sl'" and s': "s' \<in> set sl'"
        from days k' have dk': "get_available_slots w (sf + timedelta_days (int k')) t =
            Some (Inr (info k'))" by simp
        from day_result_sorted [OF dk' sl'] s'
        have d': "dt_date (slot_datetime s') = dt_date sf + int k'"
          by (simp add: dt_date_plus_days)
        from s' sl' have Pk': "?P (info k')" by (auto simp: truthy_slots_def)
        have "\<not> k' < k"
        proof
          assume "k' < k"
          with before have "\<not> ?P (infos ! k')" by simp
          moreover have "infos ! k' = info k'" using k' by (simp add: infos_def)
          ultimately show False using Pk' by simp
        qed
        then consider "k < k'" | "k' = k" by linarith
        then show "dt_date sf + int k < dt_date (slot_datetime s') \<or>
                   dt_date sf + int k = dt_date (slot_datetime s') \<and>
                   dt_time (slot_datetime slot) \<le> dt_time (slot_datetime s')"
        proof cases
          case 1
          then show ?thesis using d' by simp
        next
          case 2
          with sl' sl fi have "sl' = slot # rest" by simp
          with s' srt have le: "slot_datetime slot \<le> slot_datetime s'" by auto
          have "dt_date (slot_datetime slot) = dt_date (slot_datetime s')"
            using dts d' 2 by simp
          with le have "dt_time (slot_datetime slot) \<le> dt_time (slot_datetime s')"
            unfolding dt_date_def dt_time_def
            by (smt (verit) mult_div_mod_eq)
          then show ?thesis using d' 2 by simp
        qed
      qed
      have "\<exists>k\<le>30. ?P (info k)" using k30 P fi by blast
      moreover have "\<exists>k slot rest name dur.
                k \<le> 30 \<and> get_slots (info k) = Some (slot # rest) \<and>
                get_next_available_slot w t start_from =
                  Some (Inr (Found (dt_date sf + int k) slot name dur)) \<and>
                dt_date (slot_datetime slot) = dt_date sf + int k \<and>
                (\<forall>k'\<le>30. \<forall>sl' s'. get_slots (info k') = Some sl' \<longrightarrow> s' \<in> set sl' \<longrightarrow>
                   dt_date sf + int k < dt_date (slot_datetime s') \<or>
                   dt_date sf + int k = dt_date (slot_datetime s') \<and>
                   dt_time (slot_datetime slot) \<le> dt_time (slot_datetime s'))"
        using k30 sl [unfolded fi] found dts least by (intro exI [of _ k] exI [of _ slot] exI [of _ rest] exI [of _ name] exI [of _ dur]) simp
      ultimately show ?thesis by simp
    qed
  qed
qed

theorem next_slot_is_earliest_witness:
  "new_years_eve = (case Some new_years_eve of None \<Rightarrow> now busy_world | Some d \<Rightarrow> d) \<and>
   datetime_min \<le> new_years_eve \<and> new_years_eve + timedelta_days 31 \<le> datetime_max \<and>
   list_all (\<lambda>k. get_available_slots busy_world (new_years_eve + timedelta_days (int k))
               ''general_consultation'' =
             Some (Inr (day_info busy_world new_years_eve ''general_consultation'' k)))
     [0..<31] \<and>
   (\<exists>k\<le>30. truthy_slots (get_slots (day_info busy_world new_years_eve ''general_consultation'' k))) \<and>
   (\<exists>k slot rest name dur.
      k \<le> 30 \<and>
      get_slots (day_info busy_world new_years_eve ''general_consultation'' k) = Some (slot # rest) \<and>
      get_next_available_slot busy_world ''general_consultation'' (Some new_years_eve) =
        Some (Inr (Found (dt_date new_years_eve + int k) slot name dur)) \<and>
      dt_date (slot_datetime slot) = dt_date new_years_eve + int k \<and>
      (\<forall>k'\<le>30. \<forall>sl' s'.
         get_slots (day_info busy_world new_years_eve ''general_consultation'' k') = Some sl' \<longrightarrow>
         s' \<in> set sl' \<longrightarrow>
         dt_date new_years_eve + int k < dt_date (slot_datetime s') \<or>
         dt_date new_years_eve + int k = dt_date (slot_datetime s') \<and>
         dt_time (slot_datetime slot) \<le> dt_time (slot_datetime s')))"
proof -
  let ?info = "day_info busy_world new_years_eve ''general_consultation''"
  have h1: "new_years_eve = (case Some new_years_eve of None \<Rightarrow> now busy_world | Some d \<Rightarrow> d)"
    by simp
  have h2: "\<forall>k\<le>30. get_available_slots busy_world (new_years_eve + timedelta_days (int k))
               ''general_consultation'' = Some (Inr (?info k))"
    by (intro allI impI day_info_eq busy_world_returns)
  have "truthy_slots (get_slots (?info 1))"
    unfolding busy_world_day1 monday_info_def by (simp add: truthy_slots_def)
  then have h3: "\<exists>k\<le>30. truthy_slots (get_slots (?info k))"
    by (intro exI [of _ 1]) simp
  have h2': "list_all (\<lambda>k. get_available_slots busy_world (new_years_eve + timedelta_days (int k))
               ''general_consultation'' = Some (Inr (?info k))) [0..<31]"
    using h2 by (simp add: list_all_iff)
  have b: "datetime_min \<le> new_years_eve" "new_years_eve + timedelta_days 31 \<le> datetime_max"
    by code_simp+
  from next_slot_is_earliest [OF h1 b h2] h3 h1 h2' b show ?thesis
    by (simp only: if_True simp_thms)
qed

text \<open>
  C7.  \<open>validate_appointment_data\<close> returns the verdict of the first violated check
  in the order of the specification: required fields present and non-empty, type in
  the catalog, date parses as YYYY-MM-DD, time parses as HH:MM, email contains
  \<open>@\<close>; it never raises.  A request that does not pass is answered by
  \<open>create_appointment\<close> with that error whatever the state of the calendar, and
  without drawing a booking id: no slot is looked up.  In particular a request whose
  first four checks pass and whose email lacks \<open>@\<close> fails with
  \<open>Invalid email format\<close>.
\<close>

theorem validation_fails_fast_in_order:
  "validate_appointment_data data = Inr (spec_validate data) \<and>
   (\<forall>e. first_violation spec_checks data = Some e \<longrightarrow>
      create_appointment w data g = (Some (Inr (Failure (Some (error_message e)))), g)) \<and>
   (spec_required data = None \<and> spec_type_known data = None \<and> spec_date_parses data = None \<and>
    spec_time_parses data = None \<and>
    (\<exists>email. data ''patient_email'' = Some email \<and> CHR ''@'' \<notin> set email) \<longrightarrow>
      create_appointment w data g = (Some (Inr (Failure (Some ''Invalid email format''))), g))"
proof (intro conjI allI impI)
  show "validate_appointment_data data = Inr (spec_validate data)"
    by (rule validate_refines_spec)
next
  fix e assume "first_violation spec_checks data = Some e"
  then show "create_appointment w data g = (Some (Inr (Failure (Some (error_message e)))), g)"
    by (rule create_appointment_invalid)
next
  assume a: "spec_required data = None \<and> spec_type_known data = None \<and>
    spec_date_parses data = None \<and> spec_time_parses data = None \<and>
    (\<exists>email. data ''patient_email'' = Some email \<and> CHR ''@'' \<notin> set email)"
  then have "first_violation spec_checks data = Some MalformedEmail"
    by (auto simp: spec_checks_def spec_email_has_at_def)
  from create_appointment_invalid [OF this]
  show "create_appointment w data g = (Some (Inr (Failure (Some ''Invalid email format''))), g)"
    by simp
qed

theorem validation_fails_fast_in_order_witness:
  "first_violation spec_checks bad_email_request = Some MalformedEmail \<and>
   spec_required bad_email_request = None \<and> spec_type_known bad_email_request = None \<and>
   spec_date_parses bad_email_request = None \<and> spec_time_parses bad_email_request = None \<and>
   bad_email_request ''patient_email'' = Some ''not-an-email'' \<and>
   CHR ''@'' \<notin> set ''not-an-email'' \<and>
   validate_appointment_data bad_email_request = Inr (False, Some ''Invalid email format'') \<and>
   create_appointment failing_world bad_email_request some_rng =
     (Some (Inr (Failure (Some ''Invalid email format''))), some_rng)"
proof -
  have c: "spec_required bad_email_request = None" "spec_type_known bad_email_request = None"
    "spec_date_parses bad_email_request = None" "spec_time_parses bad_email_request = None"
    by code_simp+
  have e: "bad_email_request ''patient_email'' = Some ''not-an-email''"
    "CHR ''@'' \<notin> set ''not-an-email''"
    by (simp_all add: bad_email_request_def)
  have v: "first_violation spec_checks bad_email_request = Some MalformedEmail"
    using c e by (simp add: spec_checks_def spec_email_has_at_def)
  from validation_fails_fast_in_order [of bad_email_request failing_world some_rng] c e v
  show ?thesis by (simp add: spec_validate_def)
qed

text \<open>
  C8.  For a request that passes validation and whose time string is the
  \<open>start_time\<close> of one of the slots \<open>get_available_slots\<close> returns for its date
  and type, \<open>create_appointment\<close> returns the success dictionary.  Its booking id
  is freshly generated: it is the identifier \<open>uuid4\<close> hands out at this call, and
  the source moves on.  It is unique: \<open>uuid4\<close> never hands out an identifier twice
  (the hypothesis \<open>inj (draws g)\<close>), so the id differs from every identifier handed
  out before or after this call, in particular from the id of the next booking
  (\<open>successive_bookings_distinct_ids\<close>).  Its
  status is \<open>scheduled\<close>; its end time is \<open>%H:%M\<close> of the start (the date and
  time of the request) plus the duration of the type in the catalog.
\<close>

theorem booking_success_record:
  assumes "validate_appointment_data data = Inr (True, None)"
    and "data ''appointment_type'' = Some ty"
    and "data ''date'' = Some date_str"
    and "data ''time'' = Some time_str"
    and "strptime_Ymd date_str = Inr day"
    and "get_available_slots w day ty = Some (Inr info)"
    and "get_slots info = Some sl"
    and "time_str \<in> set (map slot_start_time sl)"
    and "inj (draws g)"
  shows "\<exists>details a tm.
           APPOINTMENT_TYPES ty = Some a \<and> strptime_HM time_str = Inr tm \<and>
           create_appointment w data g =
             (Some (Inr (Success (draws g (drawn g)) details ''Appointment booked successfully''
                [''Confirmation email will be sent to the patient'',
                 ''Calendar invite will be sent'',
                 ''Please arrive 10 minutes before appointment time''])),
              g\<lparr>drawn := Suc (drawn g)\<rparr>) \<and>
           ad_status details = ''scheduled'' \<and>
           ad_date details = date_str \<and>
           ad_start_time details = time_str \<and>
           ad_end_time details =
             strftime_HM (combine (dt_date day) tm + timedelta_minutes (at_duration a)) \<and>
           ad_duration details = at_duration a \<and>
           ad_type details = at_name a \<and>
           (\<forall>n. n \<noteq> drawn g \<longrightarrow> draws g n \<noteq> draws g (drawn g)) \<and>
           fst (uuid4 (g\<lparr>drawn := Suc (drawn g)\<rparr>)) \<noteq> draws g (drawn g)"
proof -
  note c = valid_request_checks [OF assms(1)]
  from c(2) assms(2) obtain a where a: "APPOINTMENT_TYPES ty = Some a"
    by (auto simp: spec_type_known_def split: if_splits)
  from c(4) assms(4) obtain tm where tm: "strptime_HM time_str = Inr tm"
    by (auto simp: spec_time_parses_def split: sum.splits)
  from c(1) obtain name email where pe: "data ''patient_name'' = Some name"
    "data ''patient_email'' = Some email"
    by (auto simp: spec_required_def split: if_splits)
  note av = check_slot_availability_listed [OF assms(5) tm assms(6,7,8)]
  define details where "details =
     \<lparr>ad_type = at_name a, ad_duration = at_duration a, ad_date = date_str,
      ad_start_time = time_str,
      ad_end_time = strftime_HM (combine (dt_date day) tm + timedelta_minutes (at_duration a)),
      ad_patient = \<lparr>patient_name = name, patient_email = email,
         patient_phone = (case data ''patient_phone'' of None \<Rightarrow> ''N/A'' | Some p \<Rightarrow> p)\<rparr>,
      ad_notes = (case data ''notes'' of None \<Rightarrow> [] | Some n \<Rightarrow> n),
      ad_status = ''scheduled''\<rparr>"
  have "create_appointment w data g =
             (Some (Inr (Success (draws g (drawn g)) details ''Appointment booked successfully''
                [''Confirmation email will be sent to the patient'',
                 ''Calendar invite will be sent'',
                 ''Please arrive 10 minutes before appointment time''])),
              g\<lparr>drawn := Suc (drawn g)\<rparr>)"
    using assms(1-5) a tm pe av
    by (simp add: create_appointment_def simulate_booking_def get_appointment_info_def
          uuid4_def details_def Let_def)
  moreover have u: "\<forall>n. n \<noteq> drawn g \<longrightarrow> draws g n \<noteq> draws g (drawn g)"
    using assms(9) by (auto dest: injD)
  moreover have "fst (uuid4 (g\<lparr>drawn := Suc (drawn g)\<rparr>)) \<noteq> draws g (drawn g)"
    using u by (simp add: uuid4_def)
  ultimately show ?thesis using a tm
    by (intro exI [of _ details] exI [of _ a] exI [of _ tm]) (simp add: details_def)
qed

theorem booking_success_record_witness:
  "validate_appointment_data booking_request = Inr (True, None) \<and>
   booking_request ''appointment_type'' = Some ''general_consultation'' \<and>
   booking_request ''date'' = Some ''2024-01-01'' \<and>
   booking_request ''time'' = Some ''09:00'' \<and>
   strptime_Ymd ''2024-01-01'' = Inr monday \<and>
   get_available_slots busy_world monday ''general_consultation'' = Some (Inr monday_info) \<and>
   get_slots monday_info = Some [first_slot_of_monday] \<and>
   ''09:00'' \<in> set (map slot_start_time [first_slot_of_monday]) \<and>
   inj (draws some_rng) \<and>
   (\<exists>details a tm.
      APPOINTMENT_TYPES ''general_consultation'' = Some a \<and> strptime_HM ''09:00'' = Inr tm \<and>
      create_appointment busy_world booking_request some_rng =
        (Some (Inr (Success (draws some_rng (drawn some_rng)) details
           ''Appointment booked successfully''
           [''Confirmation email will be sent to the patient'',
            ''Calendar invite will be sent'',
            ''Please arrive 10 minutes before appointment time''])),
         some_rng\<lparr>drawn := Suc (drawn some_rng)\<rparr>) \<and>
      ad_status details = ''scheduled'' \<and>
      ad_date details = ''2024-01-01'' \<and>
      ad_start_time details = ''09:00'' \<and>
      ad_end_time details =
        strftime_HM (combine (dt_date monday) tm + timedelta_minutes (at_duration a)) \<and>
      ad_duration details = at_duration a \<and>
      ad_type details = at_name a \<and>
      (\<forall>n. n \<noteq> drawn some_rng \<longrightarrow> draws some_rng n \<noteq> draws some_rng (drawn some_rng)) \<and>
      fst (uuid4 (some_rng\<lparr>drawn := Suc (drawn some_rng)\<rparr>)) \<noteq>
        draws some_rng (drawn some_rng))"
proof -
  have h1: "validate_appointment_data booking_request = Inr (True, None)"
    by (rule booking_request_valid)
  have h2: "booking_request ''appointment_type'' = Some ''general_consultation''"
    and h3: "booking_request ''date'' = Some ''2024-01-01''"
    and h4: "booking_request ''time'' = Some ''09:00''"
    by (simp_all add: booking_request_def)
  have h5: "strptime_Ymd ''2024-01-01'' = Inr monday" by (rule booking_request_day)
  have h6: "get_available_slots busy_world monday ''general_consultation'' = Some (Inr monday_info)"
    by (rule busy_world_monday_info)
  have h7: "get_slots monday_info = Some [first_slot_of_monday]" by (simp add: monday_info_def)
  have h8: "''09:00'' \<in> set (map slot_start_time [first_slot_of_monday])"
    by (simp add: first_slot_of_monday_def)
  have h9: "inj (draws some_rng)"
    by (auto simp: inj_def some_rng_def dest: arg_cong [where f = length])
  from booking_success_record [OF h1 h2 h3 h4 h5 h6 h7 h8 h9] h1 h2 h3 h4 h5 h6 h7 h8 h9
  show ?thesis by blast
qed

end
